theory Spec2Isabelle
  imports Complex_Main
begin

section \<open>Fantasy football statistics tracker (runEspnStats.py)\<close>

text \<open>
  A shallow embedding of \<^verbatim>\<open>runEspnStats.py\<close>. Python exceptions are values of
  \<open>py_error\<close>; a function that can raise returns \<open>py_error + 'a\<close>. Scores are Python
  floats in the program; they are idealised here as exact rationals, and \<open>round(x, 2)\<close> as
  rounding to the nearest hundredth with ties going to the even neighbour.
\<close>

subsection \<open>Python primitives\<close>

datatype py_error =
  ValueError | IndexError | TypeError | ZeroDivisionError | UnboundLocalError | OtherException

type_synonym 'a result = "py_error + 'a"

text \<open>\<^verbatim>\<open>round(x, 2)\<close>.\<close>

definition py_round2 :: "rat \<Rightarrow> rat" where
  "py_round2 x =
     (let y = x * 100; f = \<lfloor>y\<rfloor>; d = y - of_int f
      in of_int (if d < 1 / 2 then f else if 1 / 2 < d then f + 1
                 else if even f then f else f + 1) / 100)"

text \<open>\<^verbatim>\<open>a / b\<close> on numbers.\<close>

definition py_div :: "rat \<Rightarrow> rat \<Rightarrow> rat result" where
  "py_div a b = (if b = 0 then Inl ZeroDivisionError else Inr (a / b))"

text \<open>\<^verbatim>\<open>xs[i]\<close> for a non-negative index.\<close>

definition py_nth :: "'a list \<Rightarrow> nat \<Rightarrow> 'a result" where
  "py_nth xs i = (if i < length xs then Inr (xs ! i) else Inl IndexError)"

text \<open>\<^verbatim>\<open>xs.index(x)\<close>: the first position holding \<open>x\<close>, ValueError when there is none.\<close>

fun py_index :: "'a list \<Rightarrow> 'a \<Rightarrow> nat result" where
  "py_index [] x = Inl ValueError"
| "py_index (y # ys) x =
     (if y = x then Inr 0
      else (case py_index ys x of Inl e \<Rightarrow> Inl e | Inr i \<Rightarrow> Inr (Suc i)))"

text \<open>\<^verbatim>\<open>chr(n)\<close> as a Unicode code point; ValueError outside \<open>range(0x110000)\<close>.\<close>

definition py_chr :: "nat \<Rightarrow> nat result" where
  "py_chr n = (if n < 1114112 then Inr n else Inl ValueError)"

definition ord_A :: nat where
  "ord_A = of_char CHR ''A''"

text \<open>Truthiness of an optional week number: \<^verbatim>\<open>None\<close> and \<open>0\<close> are false.\<close>

fun truthy :: "int option \<Rightarrow> bool" where
  "truthy None = False"
| "truthy (Some w) = (w \<noteq> 0)"

subsection \<open>Data supplied by the ESPN provider\<close>

record team =
  team_id :: nat
  team_name :: string

record player =
  position :: string
  slot_position :: string
  stats :: "int \<rightharpoonup> (string \<rightharpoonup> rat)"

record matchup =
  home_team :: team
  home_lineup :: "player list"
  home_projected :: rat
  home_score :: rat
  away_team :: team
  away_lineup :: "player list"
  away_projected :: rat
  away_score :: rat

record league =
  teams :: "team list"
  box_scores :: "int \<Rightarrow> matchup list"
  power_rankings :: "int \<Rightarrow> (rat \<times> team) list"

subsection \<open>TeamData\<close>

type_synonym metric_table = "(string \<times> rat) list"

text \<open>
  The three keys of \<^verbatim>\<open>additional_data\<close> that the program ever uses are the three
  optional fields; \<open>None\<close> is an absent key, which the getters return as \<^verbatim>\<open>None\<close>.
\<close>

record team_data =
  team :: team
  lineup :: "player list"
  index_column :: nat
  projected :: rat
  score :: rat
  average_per_overall :: "metric_table option"
  power_ranking :: "rat option"
  percentage_per_position :: "metric_table option"

definition TeamData :: "team \<Rightarrow> player list \<Rightarrow> nat \<Rightarrow> rat \<Rightarrow> rat \<Rightarrow> team_data" where
  "TeamData t l i p s =
     \<lparr>team = t, lineup = l, index_column = i, projected = p, score = s,
      average_per_overall = None, power_ranking = None, percentage_per_position = None\<rparr>"

definition add_average_score_per_player :: "team_data \<Rightarrow> string \<Rightarrow> rat \<Rightarrow> team_data" where
  "add_average_score_per_player td pos v =
     td\<lparr>average_per_overall :=
          Some ((case average_per_overall td of None \<Rightarrow> [] | Some tbl \<Rightarrow> tbl) @ [(pos, v)])\<rparr>"

definition get_average_score_per_player :: "team_data \<Rightarrow> metric_table option" where
  "get_average_score_per_player td = average_per_overall td"

definition add_power_ranking :: "team_data \<Rightarrow> rat \<Rightarrow> team_data" where
  "add_power_ranking td r = td\<lparr>power_ranking := Some r\<rparr>"

definition get_power_ranking :: "team_data \<Rightarrow> rat option" where
  "get_power_ranking td = power_ranking td"

definition add_percentage_per_position :: "team_data \<Rightarrow> string \<Rightarrow> rat \<Rightarrow> team_data" where
  "add_percentage_per_position td pos v =
     td\<lparr>percentage_per_position :=
          Some ((case percentage_per_position td of None \<Rightarrow> [] | Some tbl \<Rightarrow> tbl) @ [(pos, v)])\<rparr>"

definition get_percentage_per_position :: "team_data \<Rightarrow> metric_table option" where
  "get_percentage_per_position td = percentage_per_position td"

subsection \<open>FantasyFootballLeague\<close>

record fantasy_league =
  league_of :: league
  week_of :: int

text \<open>One side of a matchup (the body of the loop over \<^verbatim>\<open>["home", "away"]\<close>).\<close>

definition side_data :: "league \<Rightarrow> team \<Rightarrow> player list \<Rightarrow> rat \<Rightarrow> rat \<Rightarrow> team_data result" where
  "side_data lg t l p s =
     (case py_index (teams lg) t of
        Inl e \<Rightarrow> Inl e
      | Inr i \<Rightarrow> Inr (TeamData t l (i + 1) p s))"

fun matchups_data :: "league \<Rightarrow> matchup list \<Rightarrow> team_data list result" where
  "matchups_data lg [] = Inr []"
| "matchups_data lg (m # ms) =
     (case side_data lg (home_team m) (home_lineup m) (home_projected m) (home_score m) of
        Inl e \<Rightarrow> Inl e
      | Inr h \<Rightarrow>
        (case side_data lg (away_team m) (away_lineup m) (away_projected m) (away_score m) of
           Inl e \<Rightarrow> Inl e
         | Inr a \<Rightarrow>
           (case matchups_data lg ms of
              Inl e \<Rightarrow> Inl e
            | Inr rest \<Rightarrow> Inr (h # a # rest))))"

definition get_teams_data :: "fantasy_league \<Rightarrow> int option \<Rightarrow> team_data list result" where
  "get_teams_data fl week_option =
     matchups_data (league_of fl)
       (box_scores (league_of fl)
          (if truthy week_option then the week_option else week_of fl))"

text \<open>The teams of the sides of a list of matchups, home before away.\<close>

definition sides :: "matchup list \<Rightarrow> team list" where
  "sides ms = concat (map (\<lambda>m. [home_team m, away_team m]) ms)"

subsection \<open>Aggregation engine\<close>

text \<open>The test \<^verbatim>\<open>player.position == position and player.slot_position not in slot_conditions\<close>.\<close>

definition qualifies :: "string \<Rightarrow> string list \<Rightarrow> player \<Rightarrow> bool" where
  "qualifies pos slot_conditions p \<longleftrightarrow>
     position p = pos \<and> slot_position p \<notin> set slot_conditions"

text \<open>
  \<^verbatim>\<open>player.stats[week]["points"]\<close>, guarded by
  \<^verbatim>\<open>week in player.stats and "points" in player.stats[week]\<close>.
\<close>

definition week_points :: "int \<Rightarrow> player \<Rightarrow> rat option" where
  "week_points w p = (case stats p w of None \<Rightarrow> None | Some r \<Rightarrow> r ''points'')"

text \<open>
  The loop over the lineup in \<^verbatim>\<open>average_points_per_player\<close>; the accumulator is
  \<^verbatim>\<open>(team_player_count, team_player_stats)\<close>.
\<close>

fun count_and_sum :: "string \<Rightarrow> string list \<Rightarrow> int \<Rightarrow> player list \<Rightarrow> nat \<times> rat \<Rightarrow> nat \<times> rat" where
  "count_and_sum pos sc w [] acc = acc"
| "count_and_sum pos sc w (p # ps) (c, s) =
     count_and_sum pos sc w ps
       (if qualifies pos sc p
        then (c + 1, (case week_points w p of None \<Rightarrow> s | Some x \<Rightarrow> s + x))
        else (c, s))"

text \<open>The loop over the requested positions, for one team.\<close>

fun average_positions :: "string list \<Rightarrow> int \<Rightarrow> team_data \<Rightarrow> string list \<Rightarrow> team_data" where
  "average_positions sc w td [] = td"
| "average_positions sc w td (pos # rest) =
     (case count_and_sum pos sc w (lineup td) (0, 0) of
        (c, s) \<Rightarrow>
          average_positions sc w
            (if c > 0 then add_average_score_per_player td pos (py_round2 (s / of_nat c))
             else td)
            rest)"

definition average_points_per_player ::
    "fantasy_league \<Rightarrow> string list \<Rightarrow> string list \<Rightarrow> int option \<Rightarrow> team_data list result" where
  "average_points_per_player fl positions slot_conditions week =
     (case (if truthy week then get_teams_data fl week else get_teams_data fl None) of
        Inl e \<Rightarrow> Inl e
      | Inr teams_data \<Rightarrow>
          Inr (map (\<lambda>td. average_positions slot_conditions
                            (if truthy week then the week else week_of fl) td positions)
                 teams_data))"

text \<open>The inner loop of \<^verbatim>\<open>power_ranking_per_player\<close>: one ranking against every team.\<close>

definition apply_ranking :: "rat \<times> team \<Rightarrow> team_data list \<Rightarrow> team_data list" where
  "apply_ranking ranking teams_data =
     map (\<lambda>td. if snd ranking = team td then add_power_ranking td (fst ranking) else td) teams_data"

definition power_ranking_per_player :: "fantasy_league \<Rightarrow> int option \<Rightarrow> team_data list result" where
  "power_ranking_per_player fl week =
     (let w = (if truthy week then the week else week_of fl) in
      (case get_teams_data fl (Some w) of
         Inl e \<Rightarrow> Inl e
       | Inr teams_data \<Rightarrow>
           Inr (foldl (\<lambda>tds ranking. apply_ranking ranking tds) teams_data
                  (power_rankings (league_of fl) w))))"

text \<open>The two generator sums of \<^verbatim>\<open>percentage_of_points_by_position\<close>.\<close>

definition total_points_for_position :: "string \<Rightarrow> string list \<Rightarrow> int \<Rightarrow> player list \<Rightarrow> rat" where
  "total_points_for_position pos sc w l =
     sum_list (map (\<lambda>p. the (week_points w p))
       (filter (\<lambda>p. week_points w p \<noteq> None \<and> position p = pos \<and> slot_position p \<notin> set sc) l))"

definition total_team_points :: "string list \<Rightarrow> int \<Rightarrow> player list \<Rightarrow> rat" where
  "total_team_points sc w l =
     sum_list (map (\<lambda>p. the (week_points w p))
       (filter (\<lambda>p. week_points w p \<noteq> None \<and> slot_position p \<notin> set sc) l))"

definition percentage_points_per_position_rounded ::
    "string \<Rightarrow> string list \<Rightarrow> int \<Rightarrow> player list \<Rightarrow> rat" where
  "percentage_points_per_position_rounded pos sc w l =
     py_round2
       (if total_team_points sc w l \<noteq> 0
        then (total_points_for_position pos sc w l / total_team_points sc w l) * 100
        else 0)"

fun percentage_positions :: "string list \<Rightarrow> int \<Rightarrow> team_data \<Rightarrow> string list \<Rightarrow> team_data" where
  "percentage_positions sc w td [] = td"
| "percentage_positions sc w td (pos # rest) =
     percentage_positions sc w
       (add_percentage_per_position td pos
          (percentage_points_per_position_rounded pos sc w (lineup td)))
       rest"

definition percentage_of_points_by_position ::
    "fantasy_league \<Rightarrow> string list \<Rightarrow> string list \<Rightarrow> int option \<Rightarrow> team_data list result" where
  "percentage_of_points_by_position fl positions slot_conditions week =
     (case (if truthy week then get_teams_data fl week else get_teams_data fl None) of
        Inl e \<Rightarrow> Inl e
      | Inr teams_data \<Rightarrow>
          Inr (map (\<lambda>td. percentage_positions slot_conditions
                            (if truthy week then the week else week_of fl) td positions)
                 teams_data))"

subsection \<open>GoogleSheetsManager\<close>

text \<open>
  A cell reference \<^verbatim>\<open>f"{chr(c)}{row}"\<close> is kept as the code point of its column
  character and its row number.
\<close>

datatype cell = Cell nat int

datatype cell_value = Text string | Number rat

record pending =
  sheet_name :: string
  cell_range :: cell
  val :: cell_value

text \<open>One element of the request body: \<^verbatim>\<open>{"range": f"{sheet}!{cell}", "values": [[value]]}\<close>.\<close>

record batch_value =
  range_sheet :: string
  range_cell :: cell
  vals :: "cell_value list list"

text \<open>What \<^verbatim>\<open>batchUpdate(...).execute()\<close> does with a request body.\<close>

datatype outcome = Executed | RaisesHttpError string | RaisesOther

text \<open>
  The manager's \<^verbatim>\<open>batch_data\<close> dictionary is an association list in insertion order.
  The record also carries what the manager's methods act on outside the object: the
  behaviour of the Sheets service, the request bodies it has received, and the lines printed.
\<close>

record manager =
  batch_data :: "(string \<times> pending list) list"
  service :: "batch_value list \<Rightarrow> outcome"
  requests :: "batch_value list list"
  stdout :: "string list"

fun append_under :: "string \<Rightarrow> pending \<Rightarrow> (string \<times> pending list) list \<Rightarrow> (string \<times> pending list) list" where
  "append_under k d [] = [(k, [d])]"
| "append_under k d ((k', ds) # rest) =
     (if k' = k then (k', ds @ [d]) # rest else (k', ds) # append_under k d rest)"

definition add_data_to_batch :: "manager \<Rightarrow> string \<Rightarrow> cell \<Rightarrow> cell_value \<Rightarrow> string \<Rightarrow> manager" where
  "add_data_to_batch m sheet c v function_name =
     m\<lparr>batch_data :=
         append_under function_name \<lparr>sheet_name = sheet, cell_range = c, val = v\<rparr> (batch_data m)\<rparr>"

definition write_to_sheet :: "manager \<Rightarrow> string \<Rightarrow> cell \<Rightarrow> cell_value \<Rightarrow> string \<Rightarrow> manager" where
  "write_to_sheet m sheet c v function_name = add_data_to_batch m sheet c v function_name"

definition batch_values_of :: "(string \<times> pending list) list \<Rightarrow> batch_value list" where
  "batch_values_of bd =
     concat (map (\<lambda>(function_name, data_list).
        map (\<lambda>d. \<lparr>range_sheet = sheet_name d, range_cell = cell_range d, vals = [[val d]]\<rparr>)
          data_list) bd)"

text \<open>
  \<^verbatim>\<open>write_batch\<close> returns the manager afterwards and the exception that escapes, if any:
  only \<^verbatim>\<open>HttpError\<close> is caught.
\<close>

datatype escaped = Returned | Raised

definition write_batch :: "manager \<Rightarrow> manager \<times> escaped" where
  "write_batch m =
     (let batch_values = batch_values_of (batch_data m);
          m1 = m\<lparr>batch_data := [], requests := requests m @ [batch_values]\<rparr>
      in (case service m batch_values of
            Executed \<Rightarrow> (m1\<lparr>stdout := stdout m1 @ [''Batch data written successfully.'']\<rparr>, Returned)
          | RaisesHttpError e \<Rightarrow>
              (m1\<lparr>stdout := stdout m1 @ [''Error writing batch to spreadsheet: '' @ e]\<rparr>, Returned)
          | RaisesOther \<Rightarrow> (m1, Raised)))"

text \<open>The call \<^verbatim>\<open>manager.write_batch()\<close> that ends every report function.\<close>

definition flush_batch :: "manager \<Rightarrow> manager result" where
  "flush_batch m = (case write_batch m of (m', Returned) \<Rightarrow> Inr m' | (m', Raised) \<Rightarrow> Inl OtherException)"

subsection \<open>Cell addressing\<close>

text \<open>The column character \<^verbatim>\<open>chr(ord('A') + n)\<close>.\<close>

definition column_letter :: "nat \<Rightarrow> nat result" where
  "column_letter n = py_chr (ord_A + n)"

text \<open>The label cell \<^verbatim>\<open>f"{chr(ord('A'))}{index_row}"\<close>.\<close>

definition label_cell :: "int \<Rightarrow> cell" where
  "label_cell index_row = Cell ord_A index_row"

subsection \<open>Report functions for one week\<close>

fun team_names_loop :: "string \<Rightarrow> team_data list \<Rightarrow> manager \<Rightarrow> manager result" where
  "team_names_loop sheet [] m = Inr m"
| "team_names_loop sheet (td # tds) m =
     (case column_letter (index_column td) of
        Inl e \<Rightarrow> Inl e
      | Inr c \<Rightarrow>
          team_names_loop sheet tds
            (write_to_sheet m sheet (Cell c 1) (Text (team_name (team td)))
               ''print_team_names_to_sheet''))"

definition get_and_write_team_names :: "fantasy_league \<Rightarrow> manager \<Rightarrow> string \<Rightarrow> manager result" where
  "get_and_write_team_names fl m sheet =
     (case get_teams_data fl None of
        Inl e \<Rightarrow> Inl e
      | Inr teams_data \<Rightarrow>
        (case team_names_loop sheet teams_data m of
           Inl e \<Rightarrow> Inl e
         | Inr m1 \<Rightarrow>
           (case column_letter (length teams_data + 1) of
              Inl e \<Rightarrow> Inl e
            | Inr c \<Rightarrow>
                flush_batch (write_to_sheet m1 sheet (Cell c 1) (Text ''League average'')
                  ''print_team_names_to_sheet''))))"




text \<open>
  The loop over the teams of \<^verbatim>\<open>get_and_write_power_ranking\<close>;
  \<^verbatim>\<open>float(None)\<close> raises TypeError.
\<close>

fun power_ranking_teams ::
    "string \<Rightarrow> int \<Rightarrow> team_data list \<Rightarrow> manager \<times> rat \<Rightarrow> (manager \<times> rat) result" where
  "power_ranking_teams sheet index_row [] acc = Inr acc"
| "power_ranking_teams sheet index_row (td # tds) (m, league_average) =
     (case column_letter (index_column td) of
        Inl e \<Rightarrow> Inl e
      | Inr c \<Rightarrow>
        (case get_power_ranking td of
           None \<Rightarrow> Inl TypeError
         | Some r \<Rightarrow>
             power_ranking_teams sheet index_row tds
               (add_data_to_batch m sheet (Cell c index_row) (Number r) ''power_ranking'',
                league_average + r)))"

definition get_and_write_power_ranking ::
    "fantasy_league \<Rightarrow> manager \<Rightarrow> string \<Rightarrow> int \<Rightarrow> manager result" where
  "get_and_write_power_ranking fl m sheet index_row =
     (case power_ranking_per_player fl None of
        Inl e \<Rightarrow> Inl e
      | Inr teams_data \<Rightarrow>
        (case power_ranking_teams sheet index_row teams_data
                (write_to_sheet m sheet (label_cell index_row) (Text ''Power Ranking'')
                   ''power_ranking'', 0) of
           Inl e \<Rightarrow> Inl e
         | Inr (m1, league_average) \<Rightarrow>
           (case column_letter (length teams_data + 1) of
              Inl e \<Rightarrow> Inl e
            | Inr c \<Rightarrow>
              (case py_div league_average (of_nat (length teams_data)) of
                 Inl e \<Rightarrow> Inl e
               | Inr q \<Rightarrow>
                   flush_batch (add_data_to_batch m1 sheet (Cell c index_row) (Number q)
                     ''power_ranking'')))))"

subsection \<open>Report functions over a range of weeks\<close>

text \<open>
  The local variables of the loop over the weeks. \<^verbatim>\<open>average_overall_team_data\<close> and
  \<^verbatim>\<open>teams_data\<close> are unbound (\<open>None\<close>) until their first assignment. The entries of the
  averaged tables are of type \<open>'e\<close>: the average-points function builds triples
  \<^verbatim>\<open>(position, value / weeks, 2)\<close>, the percentage function pairs.
\<close>

record 'e accumulator =
  overall_teams_data :: "metric_table option list"
  average_overall_team_data :: "'e list list option"
  teams_data_var :: "team_data list option"
  printed :: "string list"

definition initial_accumulator :: "'e accumulator" where
  "initial_accumulator =
     \<lparr>overall_teams_data = [], average_overall_team_data = None, teams_data_var = None,
      printed = []\<rparr>"

text \<open>
  \<^verbatim>\<open>[(pos, val1 + val2) for (pos, val1), (_, val2) in zip(a, b)]\<close>.
\<close>

definition sum_tables :: "metric_table \<Rightarrow> metric_table \<Rightarrow> metric_table" where
  "sum_tables a b = map (\<lambda>((pos, val1), (_, val2)). (pos, val1 + val2)) (zip a b)"

text \<open>
  The nested loop that rebuilds the averaged tables from the running totals; iterating over a
  total that is \<^verbatim>\<open>None\<close> raises TypeError. It runs only inside the loop over
  \<^verbatim>\<open>range(1, weeks + 1)\<close>, where \<open>weeks\<close> is at least 1.
\<close>

fun averaged_tables :: "(string \<Rightarrow> rat \<Rightarrow> 'e) \<Rightarrow> metric_table option list \<Rightarrow> 'e list list result" where
  "averaged_tables mk [] = Inr []"
| "averaged_tables mk (None # rest) = Inl TypeError"
| "averaged_tables mk (Some sub_list # rest) =
     (case averaged_tables mk rest of
        Inl e \<Rightarrow> Inl e
      | Inr new \<Rightarrow> Inr (map (\<lambda>(pos, v). mk pos v) sub_list # new))"

definition warning :: "team_data \<Rightarrow> string" where
  "warning td = ''Warning: Varying tuple lengths for team '' @ team_name (team td)"

text \<open>
  The body of \<^verbatim>\<open>for i, team in enumerate(sorted_teams_data)\<close>, for a week after the
  first; \<open>getter\<close> reads the team's table of the week, \<open>mk\<close> builds an averaged entry.
\<close>

fun accumulate ::
    "(team_data \<Rightarrow> metric_table option) \<Rightarrow> (string \<Rightarrow> rat \<Rightarrow> 'e) \<Rightarrow> nat \<Rightarrow> team_data list \<Rightarrow>
     'e accumulator \<Rightarrow> 'e accumulator result" where
  "accumulate getter mk i [] st = Inr st"
| "accumulate getter mk i (td # tds) st =
     (case py_nth (overall_teams_data st) i of
        Inl e \<Rightarrow> Inl e
      | Inr None \<Rightarrow> Inl TypeError
      | Inr (Some running) \<Rightarrow>
        (case getter td of
           None \<Rightarrow> Inl TypeError
         | Some tbl \<Rightarrow>
             if length running \<noteq> length tbl
             then accumulate getter mk (i + 1) tds (st\<lparr>printed := printed st @ [warning td]\<rparr>)
             else
               (let overall = (overall_teams_data st)[i := Some (sum_tables running tbl)] in
                (case averaged_tables mk overall of
                   Inl e \<Rightarrow> Inl e
                 | Inr avg \<Rightarrow>
                     accumulate getter mk (i + 1) tds
                       (st\<lparr>overall_teams_data := overall,
                           average_overall_team_data := Some avg\<rparr>)))))"

text \<open>One week of the loop, given the week's teams as the single-week transform returned them.\<close>

definition week_step ::
    "(team_data \<Rightarrow> metric_table option) \<Rightarrow> (string \<Rightarrow> rat \<Rightarrow> 'e) \<Rightarrow> team_data list \<Rightarrow>
     'e accumulator \<Rightarrow> 'e accumulator result" where
  "week_step getter mk teams_data st =
     (let sorted_teams_data = sort_key index_column teams_data;
          st1 = st\<lparr>teams_data_var := Some teams_data\<rparr>
      in if overall_teams_data st1 = []
         then Inr (st1\<lparr>overall_teams_data := map getter sorted_teams_data\<rparr>)
         else accumulate getter mk 0 sorted_teams_data st1)"

text \<open>\<^verbatim>\<open>range(1, weeks + 1)\<close>.\<close>

definition week_range :: "int \<Rightarrow> int list" where
  "week_range weeks = map int [1 ..< nat weeks + 1]"

definition average_entry :: "int \<Rightarrow> string \<Rightarrow> rat \<Rightarrow> string \<times> rat \<times> int" where
  "average_entry weeks pos v = (pos, v / of_int weeks, 2)"

fun average_weeks ::
    "fantasy_league \<Rightarrow> int \<Rightarrow> string list \<Rightarrow> string list \<Rightarrow> int list \<Rightarrow>
     (string \<times> rat \<times> int) accumulator \<Rightarrow> (string \<times> rat \<times> int) accumulator result" where
  "average_weeks fl weeks positions omit [] st = Inr st"
| "average_weeks fl weeks positions omit (w # ws) st =
     (case average_points_per_player fl positions omit (Some w) of
        Inl e \<Rightarrow> Inl e
      | Inr teams_data \<Rightarrow>
        (case week_step get_average_score_per_player (average_entry weeks) teams_data st of
           Inl e \<Rightarrow> Inl e
         | Inr st1 \<Rightarrow> average_weeks fl weeks positions omit ws st1))"

text \<open>
  The loop \<^verbatim>\<open>for team in range(len(teams_data))\<close> for one row of the all-weeks average
  report.
\<close>

fun average_all_weeks_row_teams ::
    "string \<Rightarrow> int \<Rightarrow> nat \<Rightarrow> (string \<times> rat \<times> int) list list option \<Rightarrow> nat list \<Rightarrow>
     manager \<times> rat \<Rightarrow> (manager \<times> rat) result" where
  "average_all_weeks_row_teams sheet index_row position_index avg [] acc = Inr acc"
| "average_all_weeks_row_teams sheet index_row position_index avg (t # ts) (m, league_average) =
     (case column_letter (t + 1) of
        Inl e \<Rightarrow> Inl e
      | Inr c \<Rightarrow>
        (case avg of
           None \<Rightarrow> Inl UnboundLocalError
         | Some tables \<Rightarrow>
           (case py_nth tables t of
              Inl e \<Rightarrow> Inl e
            | Inr tbl \<Rightarrow>
              (case py_nth tbl position_index of
                 Inl e \<Rightarrow> Inl e
               | Inr (_, v, _) \<Rightarrow>
                   average_all_weeks_row_teams sheet index_row position_index avg ts
                     (add_data_to_batch m sheet (Cell c index_row) (Number (py_round2 v))
                        ''average_points_per_player_all_weeks'',
                      league_average + py_round2 v)))))"

fun average_all_weeks_rows ::
    "string \<Rightarrow> string \<Rightarrow> (string \<times> rat \<times> int) accumulator \<Rightarrow> string list \<Rightarrow> int \<Rightarrow> nat \<Rightarrow>
     manager \<Rightarrow> manager result" where
  "average_all_weeks_rows sheet started_or_not st [] index_row position_index m = Inr m"
| "average_all_weeks_rows sheet started_or_not st (pos # rest) index_row position_index m =
     (case teams_data_var st of
        None \<Rightarrow> Inl UnboundLocalError
      | Some teams_data \<Rightarrow>
        (case average_all_weeks_row_teams sheet index_row position_index
                (average_overall_team_data st) [0 ..< length teams_data]
                (write_to_sheet m sheet (label_cell index_row)
                   (Text (''Pts/'' @ pos @ '' '' @ started_or_not))
                   ''average_points_per_player_all_weeks'', 0) of
           Inl e \<Rightarrow> Inl e
         | Inr (m1, league_average) \<Rightarrow>
           (case column_letter (length teams_data + 1) of
              Inl e \<Rightarrow> Inl e
            | Inr c \<Rightarrow>
              (case py_div league_average (of_nat (length teams_data)) of
                 Inl e \<Rightarrow> Inl e
               | Inr q \<Rightarrow>
                   average_all_weeks_rows sheet started_or_not st rest (index_row + 1)
                     (position_index + 1)
                     (add_data_to_batch m1 sheet (Cell c index_row) (Number (py_round2 q))
                        ''average_points_per_player_all_weeks'')))))"

definition get_and_write_average_points_per_player_all_weeks ::
    "fantasy_league \<Rightarrow> int \<Rightarrow> manager \<Rightarrow> string \<Rightarrow> int \<Rightarrow> string list \<Rightarrow> string list \<Rightarrow> string \<Rightarrow>
     manager result" where
  "get_and_write_average_points_per_player_all_weeks fl weeks m sheet start_position
       positions_to_check positions_to_omit started_or_not =
     (case average_weeks fl weeks positions_to_check positions_to_omit (week_range weeks)
             initial_accumulator of
        Inl e \<Rightarrow> Inl e
      | Inr st \<Rightarrow>
        (case average_all_weeks_rows sheet started_or_not st positions_to_check start_position 0
                (m\<lparr>stdout := stdout m @ printed st\<rparr>) of
           Inl e \<Rightarrow> Inl e
         | Inr m1 \<Rightarrow> flush_batch m1))"

fun percentage_weeks ::
    "fantasy_league \<Rightarrow> int \<Rightarrow> string list \<Rightarrow> string list \<Rightarrow> int list \<Rightarrow>
     (string \<times> rat) accumulator \<Rightarrow> (string \<times> rat) accumulator result" where
  "percentage_weeks fl weeks positions omit [] st = Inr st"
| "percentage_weeks fl weeks positions omit (w # ws) st =
     (case percentage_of_points_by_position fl positions omit (Some w) of
        Inl e \<Rightarrow> Inl e
      | Inr teams_data \<Rightarrow>
        (case week_step get_percentage_per_position (\<lambda>pos v. (pos, v / of_int weeks))
                teams_data st of
           Inl e \<Rightarrow> Inl e
         | Inr st1 \<Rightarrow> percentage_weeks fl weeks positions omit ws st1))"

fun percentage_all_weeks_row_teams ::
    "string \<Rightarrow> int \<Rightarrow> nat \<Rightarrow> (string \<times> rat) list list option \<Rightarrow> nat list \<Rightarrow>
     manager \<times> rat \<Rightarrow> (manager \<times> rat) result" where
  "percentage_all_weeks_row_teams sheet index_row position_index avg [] acc = Inr acc"
| "percentage_all_weeks_row_teams sheet index_row position_index avg (t # ts) (m, league_average) =
     (case avg of
        None \<Rightarrow> Inl UnboundLocalError
      | Some tables \<Rightarrow>
        (case py_nth tables t of
           Inl e \<Rightarrow> Inl e
         | Inr tbl \<Rightarrow>
           (case py_nth tbl position_index of
              Inl e \<Rightarrow> Inl e
            | Inr (_, v) \<Rightarrow>
              (case column_letter (t + 1) of
                 Inl e \<Rightarrow> Inl e
               | Inr c \<Rightarrow>
                   percentage_all_weeks_row_teams sheet index_row position_index avg ts
                     (add_data_to_batch m sheet (Cell c index_row) (Number (py_round2 v))
                        ''percentage_of_points_per_position'',
                      league_average + v)))))"

fun percentage_all_weeks_rows ::
    "string \<Rightarrow> string \<Rightarrow> (string \<times> rat) accumulator \<Rightarrow> string list \<Rightarrow> int \<Rightarrow> nat \<Rightarrow>
     manager \<Rightarrow> manager result" where
  "percentage_all_weeks_rows sheet started_or_not st [] index_row position_index m = Inr m"
| "percentage_all_weeks_rows sheet started_or_not st (pos # rest) index_row position_index m =
     (case teams_data_var st of
        None \<Rightarrow> Inl UnboundLocalError
      | Some teams_data \<Rightarrow>
        (case percentage_all_weeks_row_teams sheet index_row position_index
                (average_overall_team_data st) [0 ..< length teams_data]
                (write_to_sheet m sheet (label_cell index_row)
                   (Text (''% points/'' @ pos @ '' '' @ started_or_not))
                   ''percentage_of_points_per_position'', 0) of
           Inl e \<Rightarrow> Inl e
         | Inr (m1, league_average) \<Rightarrow>
           (case column_letter (length teams_data + 1) of
              Inl e \<Rightarrow> Inl e
            | Inr c \<Rightarrow>
              (case py_div league_average (of_nat (length teams_data)) of
                 Inl e \<Rightarrow> Inl e
               | Inr q \<Rightarrow>
                   percentage_all_weeks_rows sheet started_or_not st rest (index_row + 1)
                     (position_index + 1)
                     (add_data_to_batch m1 sheet (Cell c index_row) (Number (py_round2 q))
                        ''percentage_of_points_per_position'')))))"

definition get_and_write_percentage_of_points_per_position_all_weeks ::
    "fantasy_league \<Rightarrow> int \<Rightarrow> manager \<Rightarrow> string \<Rightarrow> int \<Rightarrow> string list \<Rightarrow> string list \<Rightarrow> string \<Rightarrow>
     manager result" where
  "get_and_write_percentage_of_points_per_position_all_weeks fl weeks m sheet start_position
       positions_to_check positions_to_omit started_or_not =
     (case percentage_weeks fl weeks positions_to_check positions_to_omit (week_range weeks)
             initial_accumulator of
        Inl e \<Rightarrow> Inl e
      | Inr st \<Rightarrow>
        (case percentage_all_weeks_rows sheet started_or_not st positions_to_check start_position 0
                (m\<lparr>stdout := stdout m @ printed st\<rparr>) of
           Inl e \<Rightarrow> Inl e
         | Inr m1 \<Rightarrow> flush_batch m1))"

subsection \<open>Notions used in the statements\<close>

text \<open>The points of a player for a week, 0 when the stats hold none.\<close>

definition points_or_zero :: "int \<Rightarrow> player \<Rightarrow> rat" where
  "points_or_zero w p = (case week_points w p of None \<Rightarrow> 0 | Some x \<Rightarrow> x)"

text \<open>The entries of a table that a getter returned; an absent table has none.\<close>

definition entries :: "metric_table option \<Rightarrow> metric_table" where
  "entries t = (case t of None \<Rightarrow> [] | Some tbl \<Rightarrow> tbl)"

text \<open>
  The week a transform works on: its \<^verbatim>\<open>week\<close> argument when that is truthy, the
  league object's own week otherwise.
\<close>

definition chosen_week :: "fantasy_league \<Rightarrow> int option \<Rightarrow> int" where
  "chosen_week fl week = (if truthy week then the week else week_of fl)"

text \<open>
  The average the specification describes for one position of one lineup: no entry when no
  player qualifies, otherwise the available points over the number of qualifying players.
\<close>

definition spec_average_entries :: "string \<Rightarrow> string list \<Rightarrow> int \<Rightarrow> player list \<Rightarrow> metric_table" where
  "spec_average_entries pos sc w l =
     (let q = filter (qualifies pos sc) l
      in if q = [] then []
         else [(pos, py_round2 (sum_list (map (points_or_zero w) q) / of_nat (length q)))])"

text \<open>
  The percentage as the specification words it: points of the non-excluded entries of the
  position over points of all non-excluded entries, times 100, rounded; 0 for a zero
  denominator.
\<close>

definition spec_percentage :: "string \<Rightarrow> string list \<Rightarrow> int \<Rightarrow> player list \<Rightarrow> rat" where
  "spec_percentage pos sc w l =
     (let numerator = sum_list (map (points_or_zero w)
            (filter (\<lambda>p. position p = pos \<and> slot_position p \<notin> set sc) l));
          denominator = sum_list (map (points_or_zero w)
            (filter (\<lambda>p. slot_position p \<notin> set sc) l))
      in if denominator = 0 then 0 else py_round2 (numerator / denominator * 100))"

text \<open>A number with at most two decimal places: a whole number of hundredths.\<close>

definition two_decimals :: "rat \<Rightarrow> bool" where
  "two_decimals v \<longleftrightarrow> (\<exists>k::int. v = of_int k / 100)"

text \<open>
  Whether the running total at position \<open>j\<close> and the week's table of team \<open>td\<close> differ in
  length (the test that guards the accumulation).
\<close>

definition mismatch ::
    "(team_data \<Rightarrow> metric_table option) \<Rightarrow> metric_table option list \<Rightarrow> nat \<Rightarrow> team_data \<Rightarrow> bool" where
  "mismatch getter overall j td \<longleftrightarrow> length (entries (overall ! j)) \<noteq> length (entries (getter td))"

text \<open>The running total of position \<open>j\<close> after the week's table of team \<open>td\<close> has been seen.\<close>

definition accumulated ::
    "(team_data \<Rightarrow> metric_table option) \<Rightarrow> metric_table option list \<Rightarrow> nat \<Rightarrow> team_data \<Rightarrow>
     metric_table option" where
  "accumulated getter overall j td =
     (if mismatch getter overall j td then overall ! j
      else Some (sum_tables (entries (overall ! j)) (entries (getter td))))"

subsection \<open>A sample league\<close>

text \<open>
  Two teams over four weeks. In week 1 team A fields a quarterback without a stats record and
  a benched running back; in week 2 it fields no receiver; week 3 names a team the league
  does not list; in week 4 nobody has scored.
\<close>

definition scored :: "string \<Rightarrow> string \<Rightarrow> int \<Rightarrow> rat \<Rightarrow> player" where
  "scored pos slot w pts =
     \<lparr>position = pos, slot_position = slot, stats = [w \<mapsto> [''points'' \<mapsto> pts]]\<rparr>"

definition unscored :: "string \<Rightarrow> string \<Rightarrow> player" where
  "unscored pos slot = \<lparr>position = pos, slot_position = slot, stats = Map.empty\<rparr>"

definition team_a :: team where
  "team_a = \<lparr>team_id = 1, team_name = ''A''\<rparr>"

definition team_b :: team where
  "team_b = \<lparr>team_id = 2, team_name = ''B''\<rparr>"

definition team_c :: team where
  "team_c = \<lparr>team_id = 3, team_name = ''C''\<rparr>"

definition lineup_a1 :: "player list" where
  "lineup_a1 = [scored ''QB'' ''QB'' 1 20, unscored ''QB'' ''QB'', scored ''WR'' ''WR'' 1 10,
                scored ''RB'' ''BE'' 1 7]"

definition lineup_b1 :: "player list" where
  "lineup_b1 = [scored ''QB'' ''QB'' 1 10, scored ''WR'' ''WR'' 1 6]"

definition lineup_a2 :: "player list" where
  "lineup_a2 = [scored ''QB'' ''QB'' 2 30]"

definition lineup_b2 :: "player list" where
  "lineup_b2 = [scored ''QB'' ''QB'' 2 14, scored ''WR'' ''WR'' 2 8]"

definition game :: "team \<Rightarrow> player list \<Rightarrow> team \<Rightarrow> player list \<Rightarrow> matchup" where
  "game h hl a al =
     \<lparr>home_team = h, home_lineup = hl, home_projected = 25, home_score = 30,
      away_team = a, away_lineup = al, away_projected = 20, away_score = 16\<rparr>"

definition sample_box_scores :: "int \<Rightarrow> matchup list" where
  "sample_box_scores w =
     (if w = 1 then [game team_a lineup_a1 team_b lineup_b1]
      else if w = 2 then [game team_a lineup_a2 team_b lineup_b2]
      else if w = 3 then [game team_c [] team_a []]
      else if w = 4 then [game team_a [unscored ''QB'' ''QB''] team_b []]
      else [])"

definition sample_league :: league where
  "sample_league =
     \<lparr>teams = [team_a, team_b], box_scores = sample_box_scores,
      power_rankings = (\<lambda>w. [(3010 / 100, team_b), (2555 / 100, team_a)])\<rparr>"

definition sample_fl :: "int \<Rightarrow> fantasy_league" where
  "sample_fl w = \<lparr>league_of = sample_league, week_of = w\<rparr>"

definition sample_manager :: manager where
  "sample_manager = \<lparr>batch_data = [], service = (\<lambda>_. Executed), requests = [], stdout = []\<rparr>"

text \<open>A side of the sample league as \<open>get_teams_data\<close> builds it.\<close>

definition side_a :: "player list \<Rightarrow> team_data" where
  "side_a l = TeamData team_a l 1 25 30"

definition side_b :: "player list \<Rightarrow> team_data" where
  "side_b l = TeamData team_b l 2 20 16"

text \<open>One cell of a request body.\<close>

definition sent :: "string \<Rightarrow> nat \<Rightarrow> int \<Rightarrow> cell_value \<Rightarrow> batch_value" where
  "sent sheet c row v = \<lparr>range_sheet = sheet, range_cell = Cell c row, vals = [[v]]\<rparr>"

text \<open>
  The running totals after week 1 of the sample league, for the positions QB and WR with the
  bench excluded, and the state of the loop at that point.
\<close>

definition sample_totals :: "metric_table option list" where
  "sample_totals = [Some [(''QB'', 10), (''WR'', 10)], Some [(''QB'', 10), (''WR'', 6)]]"

definition sample_state :: "(string \<times> rat \<times> int) accumulator" where
  "sample_state =
     \<lparr>overall_teams_data = sample_totals, average_overall_team_data = None,
      teams_data_var = None, printed = []\<rparr>"

text \<open>What the single-week average transform returns for weeks 1 and 2 of the sample league.\<close>

definition sample_week1 :: "team_data list" where
  "sample_week1 =
     [(side_a lineup_a1)\<lparr>average_per_overall := Some [(''QB'', 10), (''WR'', 10)]\<rparr>,
      (side_b lineup_b1)\<lparr>average_per_overall := Some [(''QB'', 10), (''WR'', 6)]\<rparr>]"

definition sample_week2 :: "team_data list" where
  "sample_week2 =
     [(side_a lineup_a2)\<lparr>average_per_overall := Some [(''QB'', 30)]\<rparr>,
      (side_b lineup_b2)\<lparr>average_per_overall := Some [(''QB'', 14), (''WR'', 8)]\<rparr>]"

text \<open>The team and the lineup of every side of a list of matchups, home before away.\<close>

definition side_rows :: "matchup list \<Rightarrow> (team \<times> player list) list" where
  "side_rows ms =
     concat (map (\<lambda>m. [(home_team m, home_lineup m), (away_team m, away_lineup m)]) ms)"




section \<open>Properties\<close>

lemma py_index_Inl: "py_index xs x = Inl e \<Longrightarrow> e = ValueError \<and> x \<notin> set xs"
  by (induction xs arbitrary: e) (auto split: if_splits sum.splits)

lemma py_index_Inr:
  "py_index xs x = Inr i \<Longrightarrow> i < length xs \<and> xs ! i = x \<and> (\<forall>j<i. xs ! j \<noteq> x)"
proof (induction xs arbitrary: i)
  case Nil
  then show ?case by simp
next
  case (Cons y ys)
  show ?case
  proof (cases "y = x")
    case True
    with Cons.prems show ?thesis by simp
  next
    case False
    with Cons.prems obtain k where k: "py_index ys x = Inr k" "i = Suc k"
      by (auto split: sum.splits)
    from Cons.IH [OF k(1)] have "k < length ys" "ys ! k = x" "\<forall>j<k. ys ! j \<noteq> x"
      by auto
    with k False show ?thesis
      by (auto simp: nth_Cons split: nat.splits)
  qed
qed

lemma py_index_missing: "x \<notin> set xs \<Longrightarrow> py_index xs x = Inl ValueError"
  by (induction xs) auto

lemma side_data_Inr:
  "side_data lg t l p s = Inr td \<Longrightarrow>
     team td = t \<and> lineup td = l \<and> average_per_overall td = None \<and>
     percentage_per_position td = None \<and>
     (\<exists>i. py_index (teams lg) t = Inr i \<and> index_column td = i + 1)"
  by (auto simp: side_data_def TeamData_def split: sum.splits)

lemma side_data_Inl: "side_data lg t l p s = Inl e \<Longrightarrow> e = ValueError"
  by (auto simp: side_data_def split: sum.splits dest: py_index_Inl)

lemma side_data_missing: "t \<notin> set (teams lg) \<Longrightarrow> side_data lg t l p s = Inl ValueError"
  by (simp add: side_data_def py_index_missing)

lemma matchups_data_Inl: "matchups_data lg ms = Inl e \<Longrightarrow> e = ValueError"
  by (induction ms arbitrary: e) (auto split: sum.splits dest: side_data_Inl)

lemma matchups_data_Inr:
  "matchups_data lg ms = Inr tds \<Longrightarrow>
     map team tds = sides ms \<and>
     (\<forall>td\<in>set tds. average_per_overall td = None \<and> percentage_per_position td = None \<and>
        (\<exists>i. py_index (teams lg) (team td) = Inr i \<and> index_column td = i + 1))"
proof (induction ms arbitrary: tds)
  case Nil
  then show ?case by (simp add: sides_def)
next
  case (Cons m ms)
  from Cons.prems obtain h a rest where
    h: "side_data lg (home_team m) (home_lineup m) (home_projected m) (home_score m) = Inr h" and
    a: "side_data lg (away_team m) (away_lineup m) (away_projected m) (away_score m) = Inr a" and
    r: "matchups_data lg ms = Inr rest" and tds: "tds = h # a # rest"
    by (auto split: sum.splits)
  from Cons.IH [OF r] side_data_Inr [OF h] side_data_Inr [OF a] tds show ?case
    by (auto simp: sides_def)
qed

lemma matchups_data_missing:
  "\<exists>t\<in>set (sides ms). t \<notin> set (teams lg) \<Longrightarrow> matchups_data lg ms = Inl ValueError"
proof (induction ms)
  case Nil
  then show ?case by (simp add: sides_def)
next
  case (Cons m ms)
  let ?h = "side_data lg (home_team m) (home_lineup m) (home_projected m) (home_score m)"
  let ?a = "side_data lg (away_team m) (away_lineup m) (away_projected m) (away_score m)"
  show ?case
  proof (cases ?h)
    case (Inl e)
    then show ?thesis using side_data_Inl [OF Inl] by simp
  next
    case h: (Inr h)
    then have hin: "home_team m \<in> set (teams lg)"
      using side_data_missing [of "home_team m" lg] by fastforce
    show ?thesis
    proof (cases ?a)
      case (Inl e)
      then show ?thesis using side_data_Inl [OF Inl] h by simp
    next
      case a: (Inr a)
      then have ain: "away_team m \<in> set (teams lg)"
        using side_data_missing [of "away_team m" lg] by fastforce
      from Cons.prems hin ain have "\<exists>t\<in>set (sides ms). t \<notin> set (teams lg)"
        by (auto simp: sides_def)
      from Cons.IH [OF this] h a show ?thesis by simp
    qed
  qed
qed

text \<open>
  Claim C8. \<open>get_teams_data\<close> builds one snapshot per side of every matchup of the chosen
  week, home before away. The column index of a snapshot is one more than the first position
  of its team in the league's team list. When some side names a team that the list does not
  hold, the call raises ValueError and no snapshot gets a default column.
\<close>
theorem get_teams_data_index_column:
  "(get_teams_data fl week_option = Inr tds \<longrightarrow>
      map team tds = sides (box_scores (league_of fl) (chosen_week fl week_option)) \<and>
      (\<forall>td\<in>set tds. \<exists>i<length (teams (league_of fl)).
          teams (league_of fl) ! i = team td \<and>
          (\<forall>j<i. teams (league_of fl) ! j \<noteq> team td) \<and>
          index_column td = i + 1)) \<and>
   ((\<exists>t\<in>set (sides (box_scores (league_of fl) (chosen_week fl week_option))).
        t \<notin> set (teams (league_of fl))) \<longrightarrow>
      get_teams_data fl week_option = Inl ValueError)"
proof (intro conjI impI)
  assume ok: "get_teams_data fl week_option = Inr tds"
  then have m: "matchups_data (league_of fl)
      (box_scores (league_of fl) (chosen_week fl week_option)) = Inr tds"
    by (simp add: get_teams_data_def chosen_week_def)
  from matchups_data_Inr [OF m]
  show "map team tds = sides (box_scores (league_of fl) (chosen_week fl week_option))"
    by simp
  show "\<forall>td\<in>set tds. \<exists>i<length (teams (league_of fl)).
          teams (league_of fl) ! i = team td \<and>
          (\<forall>j<i. teams (league_of fl) ! j \<noteq> team td) \<and>
          index_column td = i + 1"
  proof
    fix td assume "td \<in> set tds"
    with matchups_data_Inr [OF m] obtain i where
      i: "py_index (teams (league_of fl)) (team td) = Inr i" "index_column td = i + 1"
      by blast
    from py_index_Inr [OF i(1)] i(2)
    show "\<exists>i<length (teams (league_of fl)).
          teams (league_of fl) ! i = team td \<and>
          (\<forall>j<i. teams (league_of fl) ! j \<noteq> team td) \<and>
          index_column td = i + 1"
      by blast
  qed
next
  assume "\<exists>t\<in>set (sides (box_scores (league_of fl) (chosen_week fl week_option))).
        t \<notin> set (teams (league_of fl))"
  from matchups_data_missing [OF this]
  show "get_teams_data fl week_option = Inl ValueError"
    by (simp add: get_teams_data_def chosen_week_def)
qed

lemma py_round2_zero: "py_round2 0 = 0"
  by (simp add: py_round2_def)

lemma py_round2_two_decimals: "two_decimals (py_round2 x)"
  unfolding two_decimals_def py_round2_def Let_def by blast

lemma count_and_sum_eq:
  "count_and_sum pos sc w l (c, s) =
     (c + length (filter (qualifies pos sc) l),
      s + sum_list (map (points_or_zero w) (filter (qualifies pos sc) l)))"
  by (induction l arbitrary: c s) (auto simp: points_or_zero_def split: option.splits)

lemma sum_available_points:
  "sum_list (map (\<lambda>p. the (week_points w p)) (filter (\<lambda>p. week_points w p \<noteq> None \<and> P p) l)) =
   sum_list (map (points_or_zero w) (filter P l))"
  by (induction l) (auto simp: points_or_zero_def)

lemma entries_add_average:
  "entries (average_per_overall (add_average_score_per_player td pos v)) =
     entries (average_per_overall td) @ [(pos, v)]"
  by (simp add: add_average_score_per_player_def entries_def split: option.splits)

lemma average_positions_eq:
  "lineup (average_positions sc w td ps) = lineup td \<and>
   entries (average_per_overall (average_positions sc w td ps)) =
     entries (average_per_overall td) @
     concat (map (\<lambda>pos. spec_average_entries pos sc w (lineup td)) ps)"
proof (induction ps arbitrary: td)
  case Nil
  then show ?case by simp
next
  case (Cons pos ps)
  let ?q = "filter (qualifies pos sc) (lineup td)"
  show ?case
  proof (cases "?q = []")
    case True
    then show ?thesis
      using Cons.IH [of td] by (simp add: count_and_sum_eq spec_average_entries_def)
  next
    case False
    let ?td = "add_average_score_per_player td pos
        (py_round2 (sum_list (map (points_or_zero w) ?q) / of_nat (length ?q)))"
    have l: "lineup ?td = lineup td"
      by (simp add: add_average_score_per_player_def)
    from False Cons.IH [of ?td] show ?thesis
      by (simp add: count_and_sum_eq spec_average_entries_def l entries_add_average Let_def)
  qed
qed

lemma average_points_per_player_entries:
  assumes "average_points_per_player fl positions sc week = Inr tds" and "td \<in> set tds"
  shows "entries (get_average_score_per_player td) =
     concat (map (\<lambda>pos. spec_average_entries pos sc (chosen_week fl week) (lineup td)) positions)"
proof -
  let ?w = "chosen_week fl week"
  from assms(1) obtain tds0 where
    g: "get_teams_data fl (if truthy week then week else None) = Inr tds0" and
    tds: "tds = map (\<lambda>td. average_positions sc ?w td positions) tds0"
    by (auto simp: average_points_per_player_def chosen_week_def split: sum.splits if_splits)
  from assms(2) tds obtain td0 where td0: "td0 \<in> set tds0" "td = average_positions sc ?w td0 positions"
    by auto
  from g have "\<exists>ms. matchups_data (league_of fl) ms = Inr tds0"
    by (auto simp: get_teams_data_def)
  with matchups_data_Inr td0(1) have "average_per_overall td0 = None"
    by blast
  with average_positions_eq [of sc ?w td0 positions] td0(2) show ?thesis
    by (simp add: get_average_score_per_player_def entries_def)
qed

text \<open>
  Claim C10. The average reported for a position is the sum of the points that the qualifying
  players have for the week, divided by the number of all qualifying players, rounded. A
  qualifying player whose stats lack the week or the \<^verbatim>\<open>"points"\<close> field adds nothing
  to the sum and still counts in the divisor.
\<close>
theorem average_divides_by_all_matching:
  assumes "average_points_per_player fl positions sc week = Inr tds" and "td \<in> set tds"
    and "(pos, v) \<in> set (entries (get_average_score_per_player td))"
  shows "v = py_round2
           (sum_list (map (\<lambda>p. the (week_points (chosen_week fl week) p))
              (filter (\<lambda>p. week_points (chosen_week fl week) p \<noteq> None \<and> qualifies pos sc p)
                 (lineup td))) /
            of_nat (length (filter (qualifies pos sc) (lineup td))))"
  using assms(3) unfolding average_points_per_player_entries [OF assms(1,2)] sum_available_points
  by (auto simp: spec_average_entries_def Let_def split: if_splits)

lemma entries_add_percentage:
  "entries (percentage_per_position (add_percentage_per_position td pos v)) =
     entries (percentage_per_position td) @ [(pos, v)]"
  by (simp add: add_percentage_per_position_def entries_def split: option.splits)

lemma percentage_positions_eq:
  "lineup (percentage_positions sc w td ps) = lineup td \<and>
   entries (percentage_per_position (percentage_positions sc w td ps)) =
     entries (percentage_per_position td) @
     map (\<lambda>pos. (pos, percentage_points_per_position_rounded pos sc w (lineup td))) ps \<and>
   (ps \<noteq> [] \<longrightarrow> percentage_per_position (percentage_positions sc w td ps) \<noteq> None)"
proof (induction ps arbitrary: td)
  case Nil
  then show ?case by simp
next
  case (Cons pos ps)
  let ?td = "add_percentage_per_position td pos
      (percentage_points_per_position_rounded pos sc w (lineup td))"
  have l: "lineup ?td = lineup td" and s: "percentage_per_position ?td \<noteq> None"
    by (simp_all add: add_percentage_per_position_def)
  from Cons.IH [of ?td] s show ?case
    by (cases ps) (simp_all add: l entries_add_percentage)
qed

lemma percentage_of_points_by_position_entries:
  assumes "percentage_of_points_by_position fl positions sc week = Inr tds" and "td \<in> set tds"
  shows "entries (get_percentage_per_position td) =
     map (\<lambda>pos. (pos, percentage_points_per_position_rounded pos sc (chosen_week fl week) (lineup td)))
       positions \<and>
     (positions \<noteq> [] \<longrightarrow> get_percentage_per_position td \<noteq> None)"
proof -
  let ?w = "chosen_week fl week"
  from assms(1) obtain tds0 where
    g: "get_teams_data fl (if truthy week then week else None) = Inr tds0" and
    tds: "tds = map (\<lambda>td. percentage_positions sc ?w td positions) tds0"
    by (auto simp: percentage_of_points_by_position_def chosen_week_def split: sum.splits if_splits)
  from assms(2) tds obtain td0 where td0: "td0 \<in> set tds0" "td = percentage_positions sc ?w td0 positions"
    by auto
  from g have "\<exists>ms. matchups_data (league_of fl) ms = Inr tds0"
    by (auto simp: get_teams_data_def)
  with matchups_data_Inr td0(1) have "percentage_per_position td0 = None"
    by blast
  with percentage_positions_eq [of sc ?w td0 positions] td0(2) show ?thesis
    by (simp add: get_percentage_per_position_def entries_def)
qed

lemma percentage_rounded_spec:
  "percentage_points_per_position_rounded pos sc w l = spec_percentage pos sc w l"
proof -
  have n: "total_points_for_position pos sc w l =
      sum_list (map (points_or_zero w)
        (filter (\<lambda>p. position p = pos \<and> slot_position p \<notin> set sc) l))"
    unfolding total_points_for_position_def by (rule sum_available_points)
  have d: "total_team_points sc w l =
      sum_list (map (points_or_zero w) (filter (\<lambda>p. slot_position p \<notin> set sc) l))"
    unfolding total_team_points_def by (rule sum_available_points)
  show ?thesis
    by (simp add: percentage_points_per_position_rounded_def spec_percentage_def n d
        py_round2_zero Let_def)
qed

lemma write_batch_fields:
  "batch_data (fst (write_batch m)) = [] \<and>
   requests (fst (write_batch m)) = requests m @ [batch_values_of (batch_data m)] \<and>
   service (fst (write_batch m)) = service m"
  by (simp add: write_batch_def Let_def split: outcome.splits)

lemma batch_values_of_all_pending:
  "map (\<lambda>b. (range_sheet b, range_cell b, vals b)) (batch_values_of bd) =
   map (\<lambda>d. (sheet_name d, cell_range d, [[val d]])) (concat (map snd bd))"
  by (induction bd) (auto simp: batch_values_of_def comp_def)

text \<open>
  Claim C5. For every manager, whatever its service does with the request,
  \<^verbatim>\<open>write_batch\<close> sends one request made of every pending write of every function name
  and leaves \<^verbatim>\<open>batch_data\<close> empty; a second call right after it sends an empty request,
  so nothing is carried over or sent twice.
\<close>
theorem write_batch_clears_pending:
  "batch_data (fst (write_batch m)) = [] \<and>
   requests (fst (write_batch m)) = requests m @ [batch_values_of (batch_data m)] \<and>
   map (\<lambda>b. (range_sheet b, range_cell b, vals b)) (batch_values_of (batch_data m)) =
     map (\<lambda>d. (sheet_name d, cell_range d, [[val d]])) (concat (map snd (batch_data m))) \<and>
   requests (fst (write_batch (fst (write_batch m)))) =
     requests m @ [batch_values_of (batch_data m), []]"
  using write_batch_fields [of m] write_batch_fields [of "fst (write_batch m)"]
  by (simp add: batch_values_of_all_pending) (simp add: batch_values_of_def)


lemma column_letter_eq:
  "column_letter n = (if n < 1114047 then Inr (of_char CHR ''A'' + n) else Inl ValueError)"
  by (auto simp: column_letter_def py_chr_def ord_A_def)


lemma averaged_tables_ok:
  "None \<notin> set overall \<Longrightarrow> \<exists>avg. averaged_tables mk overall = Inr avg"
proof (induction overall)
  case Nil
  then show ?case by simp
next
  case (Cons t overall)
  then obtain tbl avg where "t = Some tbl" "averaged_tables mk overall = Inr avg"
    by (cases t) auto
  then show ?case by simp
qed

lemma accumulate_skips_mismatch:
  assumes "i + length tds \<le> length (overall_teams_data st)"
    and "None \<notin> set (overall_teams_data st)"
    and "\<forall>td\<in>set tds. getter td \<noteq> None"
  shows "\<exists>st'. accumulate getter mk i tds st = Inr st' \<and>
     length (overall_teams_data st') = length (overall_teams_data st) \<and>
     None \<notin> set (overall_teams_data st') \<and>
     (\<forall>j<length tds. overall_teams_data st' ! (i + j) =
         accumulated getter (overall_teams_data st) (i + j) (tds ! j)) \<and>
     (\<forall>k<length (overall_teams_data st). k < i \<or> i + length tds \<le> k \<longrightarrow>
         overall_teams_data st' ! k = overall_teams_data st ! k) \<and>
     printed st' = printed st @
       map (\<lambda>(j, td). warning td)
         (filter (\<lambda>(j, td). mismatch getter (overall_teams_data st) j td)
            (zip [i ..< i + length tds] tds))"
  using assms
proof (induction tds arbitrary: i st)
  case Nil
  then show ?case by simp
next
  case (Cons td tds)
  let ?ov = "overall_teams_data st"
  from Cons.prems have i: "i < length ?ov" by simp
  with Cons.prems(2) obtain running where running: "?ov ! i = Some running"
    by (metis nth_mem not_Some_eq)
  from Cons.prems(3) obtain tbl where tbl: "getter td = Some tbl"
    by auto
  have nth: "py_nth ?ov i = Inr (Some running)"
    using i running by (simp add: py_nth_def)
  have upt: "[i ..< i + length (td # tds)] = i # [Suc i ..< Suc i + length tds]"
    by (simp add: upt_rec)
  show ?case
  proof (cases "length running = length tbl")
    case False
    let ?st = "st\<lparr>printed := printed st @ [warning td]\<rparr>"
    have step: "accumulate getter mk i (td # tds) st = accumulate getter mk (Suc i) tds ?st"
      using nth tbl False by simp
    have mm: "mismatch getter ?ov i td"
      using running tbl False by (simp add: mismatch_def entries_def)
    from Cons.prems have p: "Suc i + length tds \<le> length (overall_teams_data ?st)"
      "None \<notin> set (overall_teams_data ?st)" "\<forall>td\<in>set tds. getter td \<noteq> None"
      by simp_all
    from Cons.IH [OF p] obtain st' where st':
      "accumulate getter mk (Suc i) tds ?st = Inr st'"
      "length (overall_teams_data st') = length ?ov"
      "None \<notin> set (overall_teams_data st')"
      "\<forall>j<length tds. overall_teams_data st' ! (Suc i + j) =
         accumulated getter ?ov (Suc i + j) (tds ! j)"
      "\<forall>k<length ?ov. k < Suc i \<or> Suc i + length tds \<le> k \<longrightarrow>
         overall_teams_data st' ! k = ?ov ! k"
      "printed st' = (printed st @ [warning td]) @
         map (\<lambda>(j, td). warning td)
           (filter (\<lambda>(j, td). mismatch getter ?ov j td) (zip [Suc i ..< Suc i + length tds] tds))"
      by auto
    have a: "\<forall>j<length (td # tds). overall_teams_data st' ! (i + j) =
         accumulated getter ?ov (i + j) ((td # tds) ! j)"
    proof (intro allI impI)
      fix j assume j: "j < length (td # tds)"
      show "overall_teams_data st' ! (i + j) = accumulated getter ?ov (i + j) ((td # tds) ! j)"
      proof (cases j)
        case 0
        with st'(5) i mm show ?thesis by (simp add: accumulated_def)
      next
        case (Suc j')
        with st'(4) j show ?thesis by simp
      qed
    qed
    have b: "\<forall>k<length ?ov. k < i \<or> i + length (td # tds) \<le> k \<longrightarrow>
         overall_teams_data st' ! k = ?ov ! k"
      using st'(5) by auto
    show ?thesis
      unfolding step upt using st'(1,2,3,6) a b mm by simp
  next
    case True
    let ?ov' = "?ov[i := Some (sum_tables running tbl)]"
    have none: "None \<notin> set ?ov'"
      using Cons.prems(2) by (auto dest: set_update_subset_insert [THEN subsetD])
    from averaged_tables_ok [OF none] obtain avg where avg: "averaged_tables mk ?ov' = Inr avg"
      by blast
    let ?st = "st\<lparr>overall_teams_data := ?ov', average_overall_team_data := Some avg\<rparr>"
    have step: "accumulate getter mk i (td # tds) st = accumulate getter mk (Suc i) tds ?st"
      using nth tbl True avg by (simp add: Let_def)
    have mm: "\<not> mismatch getter ?ov i td"
      using running tbl True by (simp add: mismatch_def entries_def)
    from Cons.prems none have p: "Suc i + length tds \<le> length (overall_teams_data ?st)"
      "None \<notin> set (overall_teams_data ?st)" "\<forall>td\<in>set tds. getter td \<noteq> None"
      by simp_all
    have same: "\<And>j td'. Suc i \<le> j \<Longrightarrow> mismatch getter ?ov' j td' = mismatch getter ?ov j td'"
      "\<And>j td'. Suc i \<le> j \<Longrightarrow> accumulated getter ?ov' j td' = accumulated getter ?ov j td'"
      by (simp_all add: mismatch_def accumulated_def)
    from Cons.IH [OF p] obtain st' where st':
      "accumulate getter mk (Suc i) tds ?st = Inr st'"
      "length (overall_teams_data st') = length ?ov"
      "None \<notin> set (overall_teams_data st')"
      "\<forall>j<length tds. overall_teams_data st' ! (Suc i + j) =
         accumulated getter ?ov' (Suc i + j) (tds ! j)"
      "\<forall>k<length ?ov. k < Suc i \<or> Suc i + length tds \<le> k \<longrightarrow>
         overall_teams_data st' ! k = ?ov' ! k"
      "printed st' = printed st @
         map (\<lambda>(j, td). warning td)
           (filter (\<lambda>(j, td). mismatch getter ?ov' j td) (zip [Suc i ..< Suc i + length tds] tds))"
      by auto
    have f: "filter (\<lambda>(j, td). mismatch getter ?ov' j td) (zip [Suc i ..< Suc i + length tds] tds) =
        filter (\<lambda>(j, td). mismatch getter ?ov j td) (zip [Suc i ..< Suc i + length tds] tds)"
      by (rule filter_cong) (auto dest!: set_zip_leftD simp: same)
    have a: "\<forall>j<length (td # tds). overall_teams_data st' ! (i + j) =
         accumulated getter ?ov (i + j) ((td # tds) ! j)"
    proof (intro allI impI)
      fix j assume j: "j < length (td # tds)"
      show "overall_teams_data st' ! (i + j) = accumulated getter ?ov (i + j) ((td # tds) ! j)"
      proof (cases j)
        case 0
        with st'(5) i mm running tbl show ?thesis
          by (simp add: accumulated_def entries_def)
      next
        case (Suc j')
        with st'(4) j show ?thesis by (simp add: same)
      qed
    qed
    have b: "\<forall>k<length ?ov. k < i \<or> i + length (td # tds) \<le> k \<longrightarrow>
         overall_teams_data st' ! k = ?ov ! k"
      using st'(5) by auto
    show ?thesis
      unfolding step upt using st'(1,2,3,6) a b mm f by simp
  qed
qed

subsection \<open>Evaluating the sample league\<close>

lemma floor_rat_numeral [simp]:
  "\<lfloor>numeral a / numeral b :: rat\<rfloor> = numeral a div numeral b"
  using floor_divide_of_int_eq [of "numeral a" "numeral b", where ?'a = rat] by simp

lemmas sample_defs = scored_def unscored_def team_a_def team_b_def team_c_def game_def
  lineup_a1_def lineup_b1_def lineup_a2_def lineup_b2_def
  sample_box_scores_def sample_league_def sample_fl_def sample_manager_def side_a_def side_b_def
  sent_def

lemmas engine_defs = get_teams_data_def side_data_def TeamData_def
  average_points_per_player_def qualifies_def week_points_def add_average_score_per_player_def
  get_average_score_per_player_def py_round2_def Let_def numeral_2_eq_2
  percentage_of_points_by_position_def percentage_points_per_position_rounded_def
  total_points_for_position_def total_team_points_def add_percentage_per_position_def
  get_percentage_per_position_def power_ranking_per_player_def apply_ranking_def
  add_power_ranking_def get_power_ranking_def

lemmas report_defs = flush_batch_def write_batch_def batch_values_of_def add_data_to_batch_def
  write_to_sheet_def column_letter_def py_chr_def ord_A_def label_cell_def py_div_def py_nth_def
  week_range_def initial_accumulator_def week_step_def sum_tables_def average_entry_def
  warning_def upt_rec

lemma sample_teams_week1:
  "get_teams_data (sample_fl 1) None = Inr [side_a lineup_a1, side_b lineup_b1]"
  by (simp add: engine_defs sample_defs)

lemma sample_teams_week3: "get_teams_data (sample_fl 3) None = Inl ValueError"
  by (simp add: engine_defs sample_defs)

lemma sample_average_week1:
  "average_points_per_player (sample_fl 2) [''QB'', ''TE''] [''BE''] (Some 1) =
     Inr [(side_a lineup_a1)\<lparr>average_per_overall := Some [(''QB'', 10)]\<rparr>,
          (side_b lineup_b1)\<lparr>average_per_overall := Some [(''QB'', 10)]\<rparr>]"
  by (simp add: engine_defs sample_defs)

lemma sample_percentage_week1:
  "percentage_of_points_by_position (sample_fl 2) [''QB'', ''WR''] [''BE''] (Some 1) =
     Inr [(side_a lineup_a1)\<lparr>percentage_per_position :=
             Some [(''QB'', 6667 / 100), (''WR'', 3333 / 100)]\<rparr>,
          (side_b lineup_b1)\<lparr>percentage_per_position :=
             Some [(''QB'', 625 / 10), (''WR'', 375 / 10)]\<rparr>]"
  by (simp add: engine_defs sample_defs)

lemma sample_percentage_week4:
  "percentage_of_points_by_position (sample_fl 4) [''QB''] [''BE''] None =
     Inr [(side_a [unscored ''QB'' ''QB''])\<lparr>percentage_per_position := Some [(''QB'', 0)]\<rparr>,
          (side_b [])\<lparr>percentage_per_position := Some [(''QB'', 0)]\<rparr>]"
  by (simp add: engine_defs sample_defs)

text \<open>
  In week 1 of the sample league team B, second in the team list, gets column 2; week 3
  names team C, which the list does not hold, and the call raises ValueError.
\<close>
theorem get_teams_data_index_column_witness:
  "get_teams_data (sample_fl 1) None = Inr [side_a lineup_a1, side_b lineup_b1] \<and>
   map team [side_a lineup_a1, side_b lineup_b1] = [team_a, team_b] \<and>
   (\<exists>i<length (teams sample_league). teams sample_league ! i = team_b \<and>
      (\<forall>j<i. teams sample_league ! j \<noteq> team_b) \<and> index_column (side_b lineup_b1) = i + 1) \<and>
   index_column (side_b lineup_b1) = 2 \<and>
   team_c \<in> set (sides (box_scores sample_league 3)) \<and> team_c \<notin> set (teams sample_league) \<and>
   get_teams_data (sample_fl 3) None = Inl ValueError"
proof -
  have c: "team_c \<in> set (sides (box_scores sample_league 3))" "team_c \<notin> set (teams sample_league)"
    by (simp_all add: sides_def sample_defs)
  then have "\<exists>t\<in>set (sides (box_scores (league_of (sample_fl 3)) (chosen_week (sample_fl 3) None))).
      t \<notin> set (teams (league_of (sample_fl 3)))"
    by (auto simp: chosen_week_def sample_fl_def)
  with get_teams_data_index_column [of "sample_fl 3" None "[]"]
  have bad: "get_teams_data (sample_fl 3) None = Inl ValueError"
    by blast
  have t: "team (side_b lineup_b1) = team_b" "team (side_a lineup_a1) = team_a"
    by (simp_all add: side_a_def side_b_def TeamData_def)
  from get_teams_data_index_column [of "sample_fl 1" None "[side_a lineup_a1, side_b lineup_b1]"]
    sample_teams_week1
  have "\<exists>i<length (teams sample_league). teams sample_league ! i = team_b \<and>
      (\<forall>j<i. teams sample_league ! j \<noteq> team_b) \<and> index_column (side_b lineup_b1) = i + 1"
    by (simp add: t sample_fl_def)
  with sample_teams_week1 bad c t show ?thesis
    by (simp add: side_b_def TeamData_def)
qed

text \<open>
  Team A in week 1: one of its two started quarterbacks has no stats, and the average is
  20 / 2.
\<close>
theorem average_divides_by_all_matching_witness:
  "average_points_per_player (sample_fl 2) [''QB'', ''TE''] [''BE''] (Some 1) =
     Inr [(side_a lineup_a1)\<lparr>average_per_overall := Some [(''QB'', 10)]\<rparr>,
          (side_b lineup_b1)\<lparr>average_per_overall := Some [(''QB'', 10)]\<rparr>] \<and>
   filter (\<lambda>p. week_points 1 p \<noteq> None \<and> qualifies ''QB'' [''BE''] p) lineup_a1 =
     [scored ''QB'' ''QB'' 1 20] \<and>
   length (filter (qualifies ''QB'' [''BE'']) lineup_a1) = 2 \<and>
   py_round2 (20 / 2) = (10 :: rat)"
proof -
  let ?td = "(side_a lineup_a1)\<lparr>average_per_overall := Some [(''QB'', 10)]\<rparr>"
  have e: "(''QB'', 10) \<in> set (entries (get_average_score_per_player ?td))"
    by (simp add: get_average_score_per_player_def entries_def)
  have f: "filter (\<lambda>p. week_points 1 p \<noteq> None \<and> qualifies ''QB'' [''BE''] p) lineup_a1 =
     [scored ''QB'' ''QB'' 1 20]"
    "length (filter (qualifies ''QB'' [''BE'']) lineup_a1) = 2"
    "the (week_points 1 (scored ''QB'' ''QB'' 1 20)) = 20"
    by (simp_all add: qualifies_def week_points_def sample_defs)
  have l: "lineup ?td = lineup_a1" "chosen_week (sample_fl 2) (Some 1) = 1"
    by (simp_all add: side_a_def TeamData_def chosen_week_def)
  from average_divides_by_all_matching [OF sample_average_week1 _ e, symmetric]
  have "py_round2 (20 / 2) = (10 :: rat)"
    unfolding l f(1,2) by (simp add: f(3))
  with sample_average_week1 f show ?thesis
    by simp
qed

lemma sample_average_week1_both:
  "average_points_per_player (sample_fl 2) [''QB'', ''WR''] [''BE''] (Some 1) = Inr sample_week1"
  by (simp add: engine_defs sample_defs sample_week1_def)

lemma sample_average_week2_both:
  "average_points_per_player (sample_fl 2) [''QB'', ''WR''] [''BE''] (Some 2) = Inr sample_week2"
  by (simp add: engine_defs sample_defs sample_week2_def)

lemma sample_all_weeks:
  "map_sum id (\<lambda>m. (requests m, stdout m))
     (get_and_write_average_points_per_player_all_weeks (sample_fl 2) 2 sample_manager
        ''Summary'' 2 [''QB'', ''WR''] [''BE''] ''started'') =
   Inr ([[sent ''Summary'' 65 2 (Text ''Pts/QB started''),
          sent ''Summary'' 66 2 (Number 5),
          sent ''Summary'' 67 2 (Number 12),
          sent ''Summary'' 68 2 (Number (85 / 10)),
          sent ''Summary'' 65 3 (Text ''Pts/WR started''),
          sent ''Summary'' 66 3 (Number 5),
          sent ''Summary'' 67 3 (Number 7),
          sent ''Summary'' 68 3 (Number 6)]],
        [''Warning: Varying tuple lengths for team A'', ''Batch data written successfully.''])"
  by (simp add: get_and_write_average_points_per_player_all_weeks_def engine_defs sample_defs
      report_defs)

text \<open>
  Claim C1, as amended. In a week after the first, when every running total and every team's
  table of the week exists and there are at least as many totals as teams, the step raises no
  error. For a team whose table differs in length from its running total, it prints the
  warning that names the team and leaves the total as it was; for every other team it adds
  the table to the total position by position.
\<close>
theorem week_step_skips_mismatch:
  assumes "overall_teams_data st \<noteq> []"
    and "length teams_data \<le> length (overall_teams_data st)"
    and "None \<notin> set (overall_teams_data st)"
    and "\<forall>td\<in>set teams_data. getter td \<noteq> None"
  shows "\<exists>st'. week_step getter mk teams_data st = Inr st' \<and>
     (\<forall>j<length teams_data. overall_teams_data st' ! j =
         accumulated getter (overall_teams_data st) j (sort_key index_column teams_data ! j)) \<and>
     printed st' = printed st @
       map (\<lambda>(j, td). warning td)
         (filter (\<lambda>(j, td). mismatch getter (overall_teams_data st) j td)
            (zip [0 ..< length teams_data] (sort_key index_column teams_data)))"
proof -
  let ?st = "st\<lparr>teams_data_var := Some teams_data\<rparr>"
  let ?sorted = "sort_key index_column teams_data"
  have p: "0 + length ?sorted \<le> length (overall_teams_data ?st)"
    "None \<notin> set (overall_teams_data ?st)" "\<forall>td\<in>set ?sorted. getter td \<noteq> None"
    using assms by simp_all
  have w: "week_step getter mk teams_data st = accumulate getter mk 0 ?sorted ?st"
    using assms(1) by (simp add: week_step_def Let_def)
  from accumulate_skips_mismatch [OF p, of mk] show ?thesis
    unfolding w by auto
qed

text \<open>
  Week 2 of the sample league on top of the totals of week 1: team A has one entry against a
  total of two, is warned about and keeps its total; team B is added up.
\<close>
theorem week_step_skips_mismatch_witness:
  "overall_teams_data sample_state \<noteq> [] \<and>
   length sample_week2 \<le> length (overall_teams_data sample_state) \<and>
   None \<notin> set (overall_teams_data sample_state) \<and>
   list_all (\<lambda>td. get_average_score_per_player td \<noteq> None) sample_week2 \<and>
   mismatch get_average_score_per_player sample_totals 0 (sample_week2 ! 0) \<and>
   (\<exists>st'. week_step get_average_score_per_player (average_entry 2) sample_week2 sample_state =
        Inr st' \<and>
      overall_teams_data st' ! 0 = Some [(''QB'', 10), (''WR'', 10)] \<and>
      overall_teams_data st' ! 1 = Some [(''QB'', 24), (''WR'', 14)] \<and>
      printed st' = [''Warning: Varying tuple lengths for team A''])"
proof -
  have h: "overall_teams_data sample_state \<noteq> []"
    "length sample_week2 \<le> length (overall_teams_data sample_state)"
    "None \<notin> set (overall_teams_data sample_state)"
    "\<forall>td\<in>set sample_week2. get_average_score_per_player td \<noteq> None"
    by (simp_all add: sample_state_def sample_totals_def sample_week2_def
        get_average_score_per_player_def)
  have s: "sort_key index_column sample_week2 = sample_week2"
    by (simp add: sample_week2_def sample_defs TeamData_def)
  have e: "mismatch get_average_score_per_player sample_totals 0 (sample_week2 ! 0)"
    "accumulated get_average_score_per_player sample_totals 0 (sample_week2 ! 0) =
       Some [(''QB'', 10), (''WR'', 10)]"
    "accumulated get_average_score_per_player sample_totals 1 (sample_week2 ! 1) =
       Some [(''QB'', 24), (''WR'', 14)]"
    "map (\<lambda>(j, td). warning td)
       (filter (\<lambda>(j, td). mismatch get_average_score_per_player sample_totals j td)
          (zip [0 ..< length sample_week2] sample_week2)) =
     [''Warning: Varying tuple lengths for team A'']"
    by (simp_all add: accumulated_def mismatch_def entries_def sample_totals_def sample_week2_def
        get_average_score_per_player_def sum_tables_def warning_def sample_defs TeamData_def
        upt_rec)
  have o: "overall_teams_data sample_state = sample_totals" "printed sample_state = []"
    "length sample_week2 = 2"
    by (simp_all add: sample_state_def sample_week2_def)
  from week_step_skips_mismatch [OF h, of "average_entry 2"]
  obtain st' where st':
    "week_step get_average_score_per_player (average_entry 2) sample_week2 sample_state = Inr st'"
    "\<forall>j<length sample_week2. overall_teams_data st' ! j =
       accumulated get_average_score_per_player (overall_teams_data sample_state) j
         (sort_key index_column sample_week2 ! j)"
    "printed st' = printed sample_state @
       map (\<lambda>(j, td). warning td)
         (filter (\<lambda>(j, td). mismatch get_average_score_per_player
                    (overall_teams_data sample_state) j td)
            (zip [0 ..< length sample_week2] (sort_key index_column sample_week2)))"
    by blast
  from st'(3) have pr: "printed st' = [''Warning: Varying tuple lengths for team A'']"
    unfolding s o(1,2) e(4) by simp
  from st'(2) have
    "overall_teams_data st' ! 0 =
       accumulated get_average_score_per_player sample_totals 0 (sample_week2 ! 0)"
    "overall_teams_data st' ! 1 =
       accumulated get_average_score_per_player sample_totals 1 (sample_week2 ! 1)"
    unfolding s o by simp_all
  then have ov: "overall_teams_data st' ! 0 = Some [(''QB'', 10), (''WR'', 10)]"
    "overall_teams_data st' ! 1 = Some [(''QB'', 24), (''WR'', 14)]"
    unfolding e(2,3) by simp_all
  from st'(1) pr ov h e(1) show ?thesis
    by (auto simp: list_all_iff)
qed

text \<open>
  Claim C1 as stated fails on the sample league: in week 2 team A's table has one entry and
  its running total two, yet the report over both weeks returns normally, with a warning
  printed and team A's row averaged from week 1 alone.
\<close>
theorem shape_mismatch_counterexample:
  "average_points_per_player (sample_fl 2) [''QB'', ''WR''] [''BE''] (Some 1) = Inr sample_week1 \<and>
   map get_average_score_per_player sample_week1 = sample_totals \<and>
   average_points_per_player (sample_fl 2) [''QB'', ''WR''] [''BE''] (Some 2) = Inr sample_week2 \<and>
   length (entries (sample_totals ! 0)) = 2 \<and>
   length (entries (get_average_score_per_player (sample_week2 ! 0))) = 1 \<and>
   map_sum id (\<lambda>m. (requests m, stdout m))
     (get_and_write_average_points_per_player_all_weeks (sample_fl 2) 2 sample_manager
        ''Summary'' 2 [''QB'', ''WR''] [''BE''] ''started'') =
   Inr ([[sent ''Summary'' 65 2 (Text ''Pts/QB started''),
          sent ''Summary'' 66 2 (Number 5),
          sent ''Summary'' 67 2 (Number 12),
          sent ''Summary'' 68 2 (Number (85 / 10)),
          sent ''Summary'' 65 3 (Text ''Pts/WR started''),
          sent ''Summary'' 66 3 (Number 5),
          sent ''Summary'' 67 3 (Number 7),
          sent ''Summary'' 68 3 (Number 6)]],
        [''Warning: Varying tuple lengths for team A'', ''Batch data written successfully.''])"
proof -
  have "map get_average_score_per_player sample_week1 = sample_totals"
    "length (entries (sample_totals ! 0)) = 2"
    "length (entries (get_average_score_per_player (sample_week2 ! 0))) = 1"
    by (simp_all add: sample_week1_def sample_week2_def sample_totals_def entries_def
        get_average_score_per_player_def)
  with sample_average_week1_both sample_average_week2_both sample_all_weeks show ?thesis
    by simp
qed

lemma average_weeks_single:
  "average_weeks fl weeks positions omit [w] initial_accumulator =
     (case average_points_per_player fl positions omit (Some w) of
        Inl e \<Rightarrow> Inl e
      | Inr teams_data \<Rightarrow>
          Inr (initial_accumulator
                 \<lparr>teams_data_var := Some teams_data,
                  overall_teams_data :=
                    map get_average_score_per_player (sort_key index_column teams_data)\<rparr>))"
  by (simp add: week_step_def initial_accumulator_def Let_def split: sum.splits)

lemma average_all_weeks_rows_unbound:
  assumes "teams_data_var st = Some teams_data" and "average_overall_team_data st = None"
  shows "average_all_weeks_rows sheet started st (pos # rest) index_row position_index m =
     (if teams_data = [] then Inl ZeroDivisionError else Inl UnboundLocalError)"
proof (cases teams_data)
  case Nil
  with assms show ?thesis
    by (simp add: column_letter_eq py_div_def)
next
  case (Cons td tds)
  then have "[0 ..< length teams_data] = 0 # [Suc 0 ..< length teams_data]"
    by (simp add: upt_rec)
  with assms Cons show ?thesis
    by (simp add: column_letter_eq)
qed

text \<open>
  Claim C2. Over a range of one week the all-weeks average report never writes a row: with at
  least one requested position it raises whenever the single-week transform returns, since
  \<^verbatim>\<open>average_overall_team_data\<close> is assigned only from the second week on. On the sample
  league the single-week transform of week 1 returns a table for both teams and the report
  over that one week raises UnboundLocalError.
\<close>
theorem all_weeks_average_over_one_week_raises:
  "get_and_write_average_points_per_player_all_weeks fl 1 m sheet start_position (pos # rest)
       omit started =
     (case average_points_per_player fl (pos # rest) omit (Some 1) of
        Inl e \<Rightarrow> Inl e
      | Inr teams_data \<Rightarrow>
          if teams_data = [] then Inl ZeroDivisionError else Inl UnboundLocalError) \<and>
   average_points_per_player (sample_fl 2) [''QB'', ''WR''] [''BE''] (Some 1) = Inr sample_week1 \<and>
   get_and_write_average_points_per_player_all_weeks (sample_fl 2) 1 sample_manager ''Summary'' 2
       [''QB'', ''WR''] [''BE''] ''started'' = Inl UnboundLocalError"
proof -
  have r: "week_range 1 = [1]"
    by (simp add: week_range_def)
  have g: "get_and_write_average_points_per_player_all_weeks fl 1 m sheet start_position
       (pos # rest) omit started =
     (case average_points_per_player fl (pos # rest) omit (Some 1) of
        Inl e \<Rightarrow> Inl e
      | Inr teams_data \<Rightarrow>
          if teams_data = [] then Inl ZeroDivisionError else Inl UnboundLocalError)"
    for fl m sheet start_position pos rest omit started
  proof (cases "average_points_per_player fl (pos # rest) omit (Some 1)")
    case (Inl e)
    then show ?thesis
      unfolding get_and_write_average_points_per_player_all_weeks_def r average_weeks_single
      by simp
  next
    case (Inr teams_data)
    let ?st = "initial_accumulator
                 \<lparr>teams_data_var := Some teams_data,
                  overall_teams_data :=
                    map get_average_score_per_player (sort_key index_column teams_data)\<rparr>
               :: (string \<times> rat \<times> int) accumulator"
    have st: "teams_data_var ?st = Some teams_data" "average_overall_team_data ?st = None"
      by (simp_all add: initial_accumulator_def)
    show ?thesis
      unfolding get_and_write_average_points_per_player_all_weeks_def r average_weeks_single Inr
        sum.case average_all_weeks_rows_unbound [OF st]
      by simp
  qed
  have "sample_week1 \<noteq> []"
    by (simp add: sample_week1_def)
  with g [of "sample_fl 2" sample_manager "''Summary''" 2 "''QB''" "[''WR'']" "[''BE'']" "''started''"]
    sample_average_week1_both g [of fl m sheet start_position pos rest omit started]
  show ?thesis
    by simp
qed

text \<open>
  Claim C4. On the sample league the power-ranking row of one week holds 25.55 and 30.10 for
  the teams and 27.825 in the league-average column: the mean as it is, where rounding to two
  decimals gives 27.82.
\<close>
theorem power_ranking_league_average_unrounded:
  "map_sum id requests (get_and_write_power_ranking (sample_fl 2) sample_manager ''Week 2'' 16) =
     Inr [[sent ''Week 2'' 65 16 (Text ''Power Ranking''),
           sent ''Week 2'' 66 16 (Number (2555 / 100)),
           sent ''Week 2'' 67 16 (Number (3010 / 100)),
           sent ''Week 2'' 68 16 (Number (27825 / 1000))]] \<and>
   py_round2 ((2555 / 100 + 3010 / 100) / 2) = 2782 / 100"
  by (simp add: get_and_write_power_ranking_def engine_defs sample_defs report_defs)

lemma sample_team_names:
  "get_and_write_team_names (sample_fl 1) sample_manager ''Week 1'' =
     Inr (sample_manager
            \<lparr>requests := [[sent ''Week 1'' 66 1 (Text ''A''), sent ''Week 1'' 67 1 (Text ''B''),
                          sent ''Week 1'' 68 1 (Text ''League average'')]],
             stdout := [''Batch data written successfully.'']\<rparr>)"
  by (simp add: get_and_write_team_names_def engine_defs sample_defs report_defs)

lemma py_index_present: "x \<in> set xs \<Longrightarrow> \<exists>i. py_index xs x = Inr i"
  by (induction xs) auto

lemma side_data_present:
  "t \<in> set (teams lg) \<Longrightarrow> \<exists>td. side_data lg t l p s = Inr td \<and> team td = t \<and> lineup td = l"
  using py_index_present [of t "teams lg"] by (auto simp: side_data_def TeamData_def)

lemma matchups_data_total:
  "set (sides ms) \<subseteq> set (teams lg) \<Longrightarrow>
     \<exists>tds. matchups_data lg ms = Inr tds \<and> map (\<lambda>td. (team td, lineup td)) tds = side_rows ms"
proof (induction ms)
  case Nil
  then show ?case by (simp add: side_rows_def)
next
  case (Cons m ms)
  from Cons.prems have h: "home_team m \<in> set (teams lg)" and a: "away_team m \<in> set (teams lg)"
    and r: "set (sides ms) \<subseteq> set (teams lg)"
    by (auto simp: sides_def)
  from side_data_present [OF h] obtain hd' where
    hd': "side_data lg (home_team m) (home_lineup m) (home_projected m) (home_score m) = Inr hd'"
      "team hd' = home_team m" "lineup hd' = home_lineup m"
    by blast
  from side_data_present [OF a] obtain ad where
    ad: "side_data lg (away_team m) (away_lineup m) (away_projected m) (away_score m) = Inr ad"
      "team ad = away_team m" "lineup ad = away_lineup m"
    by blast
  from Cons.IH [OF r] obtain rest where
    rest: "matchups_data lg ms = Inr rest" "map (\<lambda>td. (team td, lineup td)) rest = side_rows ms"
    by blast
  from hd' ad rest show ?case
    by (simp add: side_rows_def)
qed

lemma get_teams_data_total:
  assumes "set (sides (box_scores (league_of fl) (chosen_week fl week))) \<subseteq> set (teams (league_of fl))"
  shows "\<exists>tds0. get_teams_data fl (if truthy week then week else None) = Inr tds0 \<and>
     map (\<lambda>td. (team td, lineup td)) tds0 =
       side_rows (box_scores (league_of fl) (chosen_week fl week))"
proof -
  have "get_teams_data fl (if truthy week then week else None) =
      matchups_data (league_of fl) (box_scores (league_of fl) (chosen_week fl week))"
    by (simp add: get_teams_data_def chosen_week_def)
  with matchups_data_total [OF assms] show ?thesis
    by simp
qed

lemma add_average_team: "team (add_average_score_per_player td pos v) = team td"
  by (simp add: add_average_score_per_player_def)

lemma average_positions_team: "team (average_positions sc w td ps) = team td"
  by (induction ps arbitrary: td) (auto simp: add_average_team split: prod.splits)

lemma add_percentage_team: "team (add_percentage_per_position td pos v) = team td"
  by (simp add: add_percentage_per_position_def)

lemma percentage_positions_team: "team (percentage_positions sc w td ps) = team td"
  by (induction ps arbitrary: td) (auto simp: add_percentage_team)

lemma average_points_per_player_total:
  assumes "set (sides (box_scores (league_of fl) (chosen_week fl week))) \<subseteq> set (teams (league_of fl))"
  shows "\<exists>tds. average_points_per_player fl positions sc week = Inr tds \<and>
     map (\<lambda>td. (team td, lineup td)) tds =
       side_rows (box_scores (league_of fl) (chosen_week fl week))"
proof -
  from get_teams_data_total [OF assms] obtain tds0 where
    g: "get_teams_data fl (if truthy week then week else None) = Inr tds0" and
    r: "map (\<lambda>td. (team td, lineup td)) tds0 =
       side_rows (box_scores (league_of fl) (chosen_week fl week))"
    by blast
  let ?tds = "map (\<lambda>td. average_positions sc (chosen_week fl week) td positions) tds0"
  from g have "average_points_per_player fl positions sc week = Inr ?tds"
    by (auto simp: average_points_per_player_def chosen_week_def)
  moreover have "map (\<lambda>td. (team td, lineup td)) ?tds = map (\<lambda>td. (team td, lineup td)) tds0"
    by (simp add: comp_def average_positions_team average_positions_eq)
  ultimately show ?thesis
    using r by simp
qed

lemma percentage_of_points_by_position_total:
  assumes "set (sides (box_scores (league_of fl) (chosen_week fl week))) \<subseteq> set (teams (league_of fl))"
  shows "\<exists>tds. percentage_of_points_by_position fl positions sc week = Inr tds \<and>
     map (\<lambda>td. (team td, lineup td)) tds =
       side_rows (box_scores (league_of fl) (chosen_week fl week))"
proof -
  from get_teams_data_total [OF assms] obtain tds0 where
    g: "get_teams_data fl (if truthy week then week else None) = Inr tds0" and
    r: "map (\<lambda>td. (team td, lineup td)) tds0 =
       side_rows (box_scores (league_of fl) (chosen_week fl week))"
    by blast
  let ?tds = "map (\<lambda>td. percentage_positions sc (chosen_week fl week) td positions) tds0"
  from g have "percentage_of_points_by_position fl positions sc week = Inr ?tds"
    by (auto simp: percentage_of_points_by_position_def chosen_week_def)
  moreover have "map (\<lambda>td. (team td, lineup td)) ?tds = map (\<lambda>td. (team td, lineup td)) tds0"
    by (simp add: comp_def percentage_positions_team percentage_positions_eq)
  ultimately show ?thesis
    using r by simp
qed

text \<open>
  Claim C3. When every side of the chosen week names a team of the league, the single-week
  percentage transform returns, with one snapshot per side, in order. For every snapshot and
  every requested position, the recorded value is the points of the team's non-excluded
  entries of that position over the points of all its non-excluded entries, times 100,
  rounded to two decimals, and 0 when that denominator is zero: a zero denominator raises
  nothing.
\<close>
theorem percentage_matches_spec_formula:
  assumes "set (sides (box_scores (league_of fl) (chosen_week fl week))) \<subseteq> set (teams (league_of fl))"
  shows "\<exists>tds. percentage_of_points_by_position fl positions sc week = Inr tds \<and>
     map (\<lambda>td. (team td, lineup td)) tds =
       side_rows (box_scores (league_of fl) (chosen_week fl week)) \<and>
     (\<forall>td\<in>set tds. \<forall>i<length positions.
        entries (get_percentage_per_position td) ! i =
          (positions ! i, spec_percentage (positions ! i) sc (chosen_week fl week) (lineup td)))"
proof -
  from percentage_of_points_by_position_total [OF assms] obtain tds where
    t: "percentage_of_points_by_position fl positions sc week = Inr tds"
      "map (\<lambda>td. (team td, lineup td)) tds =
         side_rows (box_scores (league_of fl) (chosen_week fl week))"
    by blast
  have "\<forall>td\<in>set tds. \<forall>i<length positions.
        entries (get_percentage_per_position td) ! i =
          (positions ! i, spec_percentage (positions ! i) sc (chosen_week fl week) (lineup td))"
    using percentage_of_points_by_position_entries [OF t(1)]
    by (simp add: percentage_rounded_spec)
  with t show ?thesis
    by blast
qed

text \<open>
  Claim C9. When every side of the chosen week names a team of the league, the single-week
  percentage transform returns, with one snapshot per side, in order, and it has appended
  one entry per requested position to every team's table, whatever the lineup holds: the
  positions of the table are the requested positions in the requested order, and the table
  has as many entries as positions were requested.
\<close>
theorem percentage_table_one_entry_per_position:
  assumes "set (sides (box_scores (league_of fl) (chosen_week fl week))) \<subseteq> set (teams (league_of fl))"
  shows "\<exists>tds. percentage_of_points_by_position fl positions sc week = Inr tds \<and>
     map (\<lambda>td. (team td, lineup td)) tds =
       side_rows (box_scores (league_of fl) (chosen_week fl week)) \<and>
     (\<forall>td\<in>set tds.
        map fst (entries (get_percentage_per_position td)) = positions \<and>
        length (entries (get_percentage_per_position td)) = length positions \<and>
        (positions \<noteq> [] \<longrightarrow> get_percentage_per_position td \<noteq> None))"
proof -
  from percentage_of_points_by_position_total [OF assms] obtain tds where
    t: "percentage_of_points_by_position fl positions sc week = Inr tds"
      "map (\<lambda>td. (team td, lineup td)) tds =
         side_rows (box_scores (league_of fl) (chosen_week fl week))"
    by blast
  have "\<forall>td\<in>set tds.
        map fst (entries (get_percentage_per_position td)) = positions \<and>
        length (entries (get_percentage_per_position td)) = length positions \<and>
        (positions \<noteq> [] \<longrightarrow> get_percentage_per_position td \<noteq> None)"
    using percentage_of_points_by_position_entries [OF t(1)]
    by (simp add: comp_def)
  with t show ?thesis
    by blast
qed

lemma spec_average_keys:
  "map fst (concat (map (\<lambda>pos. spec_average_entries pos sc w l) ps)) =
     filter (\<lambda>pos. filter (qualifies pos sc) l \<noteq> []) ps"
  by (induction ps) (auto simp: spec_average_entries_def Let_def)

text \<open>
  Claim C6. When every side of the chosen week names a team of the league, the single-week
  average transform returns, with one snapshot per side, in order. The positions of a team's
  table are the requested positions that have at least one player of the team in a slot that
  is not excluded, in the requested order: such a position has an entry, every value in the
  table is a whole number of hundredths, and a position with no such player has no entry at
  all, rather than an entry of zero.
\<close>
theorem average_entry_present_iff_qualifying:
  assumes "set (sides (box_scores (league_of fl) (chosen_week fl week))) \<subseteq> set (teams (league_of fl))"
  shows "\<exists>tds. average_points_per_player fl positions sc week = Inr tds \<and>
     map (\<lambda>td. (team td, lineup td)) tds =
       side_rows (box_scores (league_of fl) (chosen_week fl week)) \<and>
     (\<forall>td\<in>set tds.
        map fst (entries (get_average_score_per_player td)) =
          filter (\<lambda>pos. filter (qualifies pos sc) (lineup td) \<noteq> []) positions) \<and>
     (\<forall>td\<in>set tds. \<forall>pos.
        (pos \<in> set positions \<and> filter (qualifies pos sc) (lineup td) \<noteq> [] \<longrightarrow>
           (\<exists>v. (pos, v) \<in> set (entries (get_average_score_per_player td)))) \<and>
        (\<forall>v. (pos, v) \<in> set (entries (get_average_score_per_player td)) \<longrightarrow> two_decimals v) \<and>
        (filter (qualifies pos sc) (lineup td) = [] \<longrightarrow>
           (\<forall>v. (pos, v) \<notin> set (entries (get_average_score_per_player td)))))"
proof -
  from average_points_per_player_total [OF assms] obtain tds where
    t: "average_points_per_player fl positions sc week = Inr tds"
      "map (\<lambda>td. (team td, lineup td)) tds =
         side_rows (box_scores (league_of fl) (chosen_week fl week))"
    by blast
  have "\<forall>td\<in>set tds. \<forall>pos.
        (pos \<in> set positions \<and> filter (qualifies pos sc) (lineup td) \<noteq> [] \<longrightarrow>
           (\<exists>v. (pos, v) \<in> set (entries (get_average_score_per_player td)))) \<and>
        (\<forall>v. (pos, v) \<in> set (entries (get_average_score_per_player td)) \<longrightarrow> two_decimals v) \<and>
        (filter (qualifies pos sc) (lineup td) = [] \<longrightarrow>
           (\<forall>v. (pos, v) \<notin> set (entries (get_average_score_per_player td))))"
  proof (intro ballI allI)
    fix td pos assume td: "td \<in> set tds"
    show "(pos \<in> set positions \<and> filter (qualifies pos sc) (lineup td) \<noteq> [] \<longrightarrow>
           (\<exists>v. (pos, v) \<in> set (entries (get_average_score_per_player td)))) \<and>
        (\<forall>v. (pos, v) \<in> set (entries (get_average_score_per_player td)) \<longrightarrow> two_decimals v) \<and>
        (filter (qualifies pos sc) (lineup td) = [] \<longrightarrow>
           (\<forall>v. (pos, v) \<notin> set (entries (get_average_score_per_player td))))"
      unfolding average_points_per_player_entries [OF t(1) td]
      by (auto simp: spec_average_entries_def Let_def py_round2_two_decimals split: if_splits)
  qed
  moreover have "\<forall>td\<in>set tds.
        map fst (entries (get_average_score_per_player td)) =
          filter (\<lambda>pos. filter (qualifies pos sc) (lineup td) \<noteq> []) positions"
    using average_points_per_player_entries [OF t(1)] by (simp add: spec_average_keys)
  ultimately show ?thesis
    using t by blast
qed

lemma sample_sides_week1:
  "set (sides (box_scores (league_of (sample_fl 2)) (chosen_week (sample_fl 2) (Some 1)))) \<subseteq>
     set (teams (league_of (sample_fl 2)))"
  by (simp add: sides_def chosen_week_def sample_defs)

lemma sample_sides_week4:
  "set (sides (box_scores (league_of (sample_fl 4)) (chosen_week (sample_fl 4) None))) \<subseteq>
     set (teams (league_of (sample_fl 4)))"
  by (simp add: sides_def chosen_week_def sample_defs)

text \<open>
  Week 1 of the sample league: team A's quarterbacks made 20 of its 30 started points, 66.67
  percent. Week 4: nobody has points, the transform returns and the percentage is 0.
\<close>
theorem percentage_matches_spec_formula_witness:
  "set (sides (box_scores (league_of (sample_fl 2)) (chosen_week (sample_fl 2) (Some 1)))) \<subseteq>
     set (teams (league_of (sample_fl 2))) \<and>
   percentage_of_points_by_position (sample_fl 2) [''QB'', ''WR''] [''BE''] (Some 1) =
     Inr [(side_a lineup_a1)\<lparr>percentage_per_position :=
             Some [(''QB'', 6667 / 100), (''WR'', 3333 / 100)]\<rparr>,
          (side_b lineup_b1)\<lparr>percentage_per_position :=
             Some [(''QB'', 625 / 10), (''WR'', 375 / 10)]\<rparr>] \<and>
   spec_percentage ''QB'' [''BE''] 1 lineup_a1 = 6667 / 100 \<and>
   set (sides (box_scores (league_of (sample_fl 4)) (chosen_week (sample_fl 4) None))) \<subseteq>
     set (teams (league_of (sample_fl 4))) \<and>
   percentage_of_points_by_position (sample_fl 4) [''QB''] [''BE''] None =
     Inr [(side_a [unscored ''QB'' ''QB''])\<lparr>percentage_per_position := Some [(''QB'', 0)]\<rparr>,
          (side_b [])\<lparr>percentage_per_position := Some [(''QB'', 0)]\<rparr>] \<and>
   spec_percentage ''QB'' [''BE''] 4 [unscored ''QB'' ''QB''] = 0"
proof -
  let ?a1 = "(side_a lineup_a1)\<lparr>percentage_per_position :=
             Some [(''QB'', 6667 / 100), (''WR'', 3333 / 100)]\<rparr>"
  let ?a4 = "(side_a [unscored ''QB'' ''QB''])\<lparr>percentage_per_position := Some [(''QB'', 0)]\<rparr>"
  from percentage_matches_spec_formula [OF sample_sides_week1, of "[''QB'', ''WR'']" "[''BE'']"]
    sample_percentage_week1
  have "entries (get_percentage_per_position ?a1) ! 0 =
      ([''QB'', ''WR''] ! 0,
       spec_percentage ([''QB'', ''WR''] ! 0) [''BE''] (chosen_week (sample_fl 2) (Some 1)) (lineup ?a1))"
    by auto
  then have w1: "spec_percentage ''QB'' [''BE''] 1 lineup_a1 = 6667 / 100"
    by (simp add: get_percentage_per_position_def entries_def chosen_week_def side_a_def
        TeamData_def)
  from percentage_matches_spec_formula [OF sample_sides_week4, of "[''QB'']" "[''BE'']"]
    sample_percentage_week4
  have "entries (get_percentage_per_position ?a4) ! 0 =
      ([''QB''] ! 0,
       spec_percentage ([''QB''] ! 0) [''BE''] (chosen_week (sample_fl 4) None) (lineup ?a4))"
    by auto
  then have w4: "spec_percentage ''QB'' [''BE''] 4 [unscored ''QB'' ''QB''] = 0"
    by (simp add: get_percentage_per_position_def entries_def chosen_week_def side_a_def
        TeamData_def sample_fl_def)
  from w1 w4 sample_sides_week1 sample_sides_week4 sample_percentage_week1 sample_percentage_week4
  show ?thesis
    by simp
qed

text \<open>Team B's table of week 1 lists QB and WR, as requested.\<close>
theorem percentage_table_one_entry_per_position_witness:
  "set (sides (box_scores (league_of (sample_fl 2)) (chosen_week (sample_fl 2) (Some 1)))) \<subseteq>
     set (teams (league_of (sample_fl 2))) \<and>
   percentage_of_points_by_position (sample_fl 2) [''QB'', ''WR''] [''BE''] (Some 1) =
     Inr [(side_a lineup_a1)\<lparr>percentage_per_position :=
             Some [(''QB'', 6667 / 100), (''WR'', 3333 / 100)]\<rparr>,
          (side_b lineup_b1)\<lparr>percentage_per_position :=
             Some [(''QB'', 625 / 10), (''WR'', 375 / 10)]\<rparr>] \<and>
   side_rows (box_scores sample_league 1) = [(team_a, lineup_a1), (team_b, lineup_b1)] \<and>
   map fst (entries (get_percentage_per_position ((side_b lineup_b1)\<lparr>percentage_per_position :=
             Some [(''QB'', 625 / 10), (''WR'', 375 / 10)]\<rparr>))) = [''QB'', ''WR'']"
proof -
  let ?b1 = "(side_b lineup_b1)\<lparr>percentage_per_position :=
             Some [(''QB'', 625 / 10), (''WR'', 375 / 10)]\<rparr>"
  from percentage_table_one_entry_per_position [OF sample_sides_week1, of "[''QB'', ''WR'']"
      "[''BE'']"] sample_percentage_week1
  have "map fst (entries (get_percentage_per_position ?b1)) = [''QB'', ''WR'']"
    by auto
  moreover have "side_rows (box_scores sample_league 1) = [(team_a, lineup_a1), (team_b, lineup_b1)]"
    by (simp add: side_rows_def sample_league_def sample_box_scores_def game_def)
  ultimately show ?thesis
    using sample_sides_week1 sample_percentage_week1 by simp
qed

text \<open>
  Team A in week 1: two started quarterbacks give an entry for QB; no tight end gives no
  entry for TE.
\<close>
theorem average_entry_present_iff_qualifying_witness:
  "set (sides (box_scores (league_of (sample_fl 2)) (chosen_week (sample_fl 2) (Some 1)))) \<subseteq>
     set (teams (league_of (sample_fl 2))) \<and>
   average_points_per_player (sample_fl 2) [''QB'', ''TE''] [''BE''] (Some 1) =
     Inr [(side_a lineup_a1)\<lparr>average_per_overall := Some [(''QB'', 10)]\<rparr>,
          (side_b lineup_b1)\<lparr>average_per_overall := Some [(''QB'', 10)]\<rparr>] \<and>
   filter (qualifies ''QB'' [''BE'']) lineup_a1 \<noteq> [] \<and>
   (\<exists>v. (''QB'', v) \<in> set (entries (get_average_score_per_player
        ((side_a lineup_a1)\<lparr>average_per_overall := Some [(''QB'', 10)]\<rparr>))) \<and> two_decimals v) \<and>
   filter (qualifies ''TE'' [''BE'']) lineup_a1 = [] \<and>
   (\<forall>v. (''TE'', v) \<notin> set (entries (get_average_score_per_player
        ((side_a lineup_a1)\<lparr>average_per_overall := Some [(''QB'', 10)]\<rparr>))))"
proof -
  let ?td = "(side_a lineup_a1)\<lparr>average_per_overall := Some [(''QB'', 10)]\<rparr>"
  have q: "filter (qualifies ''QB'' [''BE'']) lineup_a1 \<noteq> []"
    "filter (qualifies ''TE'' [''BE'']) lineup_a1 = []"
    by (simp_all add: qualifies_def sample_defs)
  have l: "lineup ?td = lineup_a1"
    by (simp add: side_a_def TeamData_def)
  from average_entry_present_iff_qualifying [OF sample_sides_week1, of "[''QB'', ''TE'']"
      "[''BE'']"] sample_average_week1
  have a: "\<forall>pos.
        (pos \<in> set [''QB'', ''TE''] \<and> filter (qualifies pos [''BE'']) (lineup ?td) \<noteq> [] \<longrightarrow>
           (\<exists>v. (pos, v) \<in> set (entries (get_average_score_per_player ?td)))) \<and>
        (\<forall>v. (pos, v) \<in> set (entries (get_average_score_per_player ?td)) \<longrightarrow> two_decimals v) \<and>
        (filter (qualifies pos [''BE'']) (lineup ?td) = [] \<longrightarrow>
           (\<forall>v. (pos, v) \<notin> set (entries (get_average_score_per_player ?td))))"
    by auto
  from a [rule_format, of "''QB''"] a [rule_format, of "''TE''"] q
  have "\<exists>v. (''QB'', v) \<in> set (entries (get_average_score_per_player ?td)) \<and> two_decimals v"
    "\<forall>v. (''TE'', v) \<notin> set (entries (get_average_score_per_player ?td))"
    unfolding l by auto
  with q sample_sides_week1 sample_average_week1 show ?thesis
    by simp
qed











end
